theory Spec2Isabelle
  imports Main
begin

section \<open>The system.run handler: data model\<close>

text \<open>
  The development embeds \<^verbatim>\<open>handleSystemRunInvoke\<close> of
  \<^verbatim>\<open>src/agents/tool-policy.ts\<close> (lines 262--615). The function is asynchronous and
  talks to its surroundings through the callbacks of \<^verbatim>\<open>opts\<close> and through functions
  imported from modules that are not part of the sources at hand. Every such collaborator
  is a field of the record \<open>opts\<close> below, so that each result about the handler holds for
  any implementation of them. Each call that has an effect outside the handler is logged, in
  program order, in a trace of \<open>effect\<close> values; the approvals file, which
  \<^verbatim>\<open>addAllowlistEntry\<close> and \<^verbatim>\<open>recordAllowlistUse\<close> mutate, is passed along explicitly.
  Strings are byte strings; \<^verbatim>\<open>undefined\<close> and \<^verbatim>\<open>null\<close> are both \<open>None\<close>.
\<close>

type_synonym env = "(string \<times> string) list"

text \<open>\<^verbatim>\<open>SystemRunParams\<close>, lines 216--228.\<close>

record SystemRunParams =
  command :: "string list"
  rawCommand :: "string option"
  cwd :: "string option"
  env :: "env option"
  timeoutMs :: "int option"
  needsScreenRecording :: "bool option"
  agentId :: "string option"
  sessionKey :: "string option"
  approved :: "bool option"
  approvalDecision :: "string option"
  runId :: "string option"

text \<open>\<^verbatim>\<open>RunResult\<close>, lines 230--238.\<close>

record RunResult =
  exitCode :: "int option"
  timedOut :: bool
  success :: bool
  stdout :: string
  stderr :: string
  error :: "string option"
  truncated :: bool

text \<open>\<^verbatim>\<open>ExecEventPayload\<close>, lines 240--250.\<close>

record ExecEventPayload =
  ev_sessionKey :: string
  ev_runId :: string
  ev_host :: string
  ev_command :: "string option"
  ev_exitCode :: "int option"
  ev_timedOut :: "bool option"
  ev_success :: "bool option"
  ev_output :: "string option"
  ev_reason :: "string option"

text \<open>
  The \<^verbatim>\<open>result\<close> argument of \<^verbatim>\<open>sendExecFinishedEvent\<close>, lines 289--296; the payload of
  a successful exec host response is passed in the same position (line 450).
\<close>

record FinishedResult =
  fin_stdout :: "string option"
  fin_stderr :: "string option"
  fin_error :: "string option"
  fin_exitCode :: "int option"
  fin_timedOut :: "bool option"
  fin_success :: "bool option"

text \<open>
  \<^verbatim>\<open>SystemRunInvokeResult\<close>, lines 256--260. \<^verbatim>\<open>JSON.stringify\<close> is not modelled:
  \<open>payloadJSON\<close> holds the object that the code serialises, either the exec host's result
  (line 453) or the six fields picked from the run result (lines 606--613).
\<close>

record InvokeError =
  code :: "string option"
  message :: "string option"

datatype payload =
    HostResultJSON FinishedResult
  | RunResultJSON "int option" bool bool string string "string option"

record SystemRunInvokeResult =
  ok :: bool
  payloadJSON :: "payload option"
  err :: "InvokeError option"

text \<open>
  The types imported from \<^verbatim>\<open>../infra/exec-approvals.js\<close> and
  \<^verbatim>\<open>../infra/exec-host.js\<close>, with the fields the handler reads or writes.
  \<^verbatim>\<open>ExecSecurity\<close> and \<^verbatim>\<open>ExecAsk\<close> are string unions, kept as strings.
\<close>

record CommandResolution =
  resolvedPath :: "string option"

record ExecCommandSegment =
  argv :: "string list"
  resolution :: "CommandResolution option"

record ExecAllowlistEntry =
  pattern :: string
  entryAgentId :: "string option"
  useCount :: nat
  lastUsedAtMs :: "int option"
  createdAtMs :: "int option"
  lastCmdText :: "string option"

record 'f ExecApprovals =
  agent_security :: string
  agent_ask :: string
  agent_autoAllowSkills :: bool
  allowlist :: "ExecAllowlistEntry list"
  approvalsFile :: 'f

record ExecHostRequest =
  rq_command :: "string list"
  rq_rawCommand :: "string option"
  rq_cwd :: "string option"
  rq_env :: "env option"
  rq_timeoutMs :: "int option"
  rq_needsScreenRecording :: "bool option"
  rq_agentId :: "string option"
  rq_sessionKey :: "string option"
  rq_approvalDecision :: "string option"

datatype ExecHostResponse =
    HostOk FinishedResult
  | HostError "string option" string

text \<open>The successful result of \<^verbatim>\<open>resolveSystemRunCommand\<close> as read at lines 318--321.\<close>

record ResolvedCommand =
  rc_argv :: "string list"
  rc_rawCommand :: "string option"
  rc_shellCommand :: "string option"
  rc_cmdText :: string

record CommandFailure =
  cf_message :: string
  cf_code :: "string option"

text \<open>The results of the analysis functions, as read at lines 358--378.\<close>

record ShellAllowlistEval =
  sh_analysisOk :: bool
  sh_allowlistMatches :: "ExecAllowlistEntry list"
  sh_allowlistSatisfied :: bool
  sh_segments :: "ExecCommandSegment list"

record ArgvAnalysis =
  an_ok :: bool
  an_segments :: "ExecCommandSegment list"

record ExecAllowlistEval =
  ex_allowlistMatches :: "ExecAllowlistEntry list"
  ex_allowlistSatisfied :: bool

record ExecToolConfig =
  cfg_security :: "string option"
  cfg_ask :: "string option"
  cfg_safeBins :: "string list option"

text \<open>
  The collaborators: the callbacks of \<^verbatim>\<open>opts\<close> (lines 262--298), the imported functions
  (lines 194--214), the configuration (\<open>cfg_exec\<close> is \<^verbatim>\<open>loadConfig().tools?.exec\<close>,
  \<open>agent_exec\<close> is \<^verbatim>\<open>resolveAgentConfig(cfg, id)?.tools?.exec\<close>), the value of
  \<^verbatim>\<open>process.platform\<close> and the identifier that \<^verbatim>\<open>crypto.randomUUID()\<close> returns.
\<close>

record 'f opts =
  platform :: string
  randomUUID :: string
  cfg_exec :: "ExecToolConfig option"
  agent_exec :: "string \<Rightarrow> ExecToolConfig option"
  execHostEnforced :: bool
  execHostFallbackAllowed :: bool
  resolveExecSecurity :: "string option \<Rightarrow> string"
  resolveExecAsk :: "string option \<Rightarrow> string"
  isCmdExeInvocation :: "string list \<Rightarrow> bool"
  sanitizeEnv :: "env option \<Rightarrow> env option"
  runCommand :: "string list \<Rightarrow> string option \<Rightarrow> env option \<Rightarrow> int option \<Rightarrow> RunResult"
  runViaMacAppExecHost :: "'f ExecApprovals \<Rightarrow> ExecHostRequest \<Rightarrow> ExecHostResponse option"
  buildExecEventPayload :: "ExecEventPayload \<Rightarrow> ExecEventPayload"
  skillBins_current :: "string list"
  resolveSystemRunCommand :: "string list option \<Rightarrow> string option \<Rightarrow> CommandFailure + ResolvedCommand"
  resolveExecApprovals :: "string option \<Rightarrow> string \<Rightarrow> string \<Rightarrow> 'f ExecApprovals"
  resolveSafeBins :: "string list option \<Rightarrow> string list"
  getTrustedSafeBinDirs :: "string list"
  evaluateShellAllowlist ::
    "string \<Rightarrow> ExecAllowlistEntry list \<Rightarrow> string list \<Rightarrow> string option \<Rightarrow> env option \<Rightarrow>
     string list \<Rightarrow> string list \<Rightarrow> bool \<Rightarrow> string \<Rightarrow> ShellAllowlistEval"
  analyzeArgvCommand :: "string list \<Rightarrow> string option \<Rightarrow> env option \<Rightarrow> ArgvAnalysis"
  evaluateExecAllowlist ::
    "ArgvAnalysis \<Rightarrow> ExecAllowlistEntry list \<Rightarrow> string list \<Rightarrow> string option \<Rightarrow>
     string list \<Rightarrow> string list \<Rightarrow> bool \<Rightarrow> ExecAllowlistEval"
  requiresExecApproval :: "string \<Rightarrow> string \<Rightarrow> bool \<Rightarrow> bool \<Rightarrow> bool"
  addAllowlistEntry :: "'f \<Rightarrow> string option \<Rightarrow> string \<Rightarrow> 'f"
  recordAllowlistUse ::
    "'f \<Rightarrow> string option \<Rightarrow> ExecAllowlistEntry \<Rightarrow> string \<Rightarrow> string option \<Rightarrow> 'f"

text \<open>The calls that reach outside the handler, logged in program order.\<close>

datatype effect =
    SendNodeEvent string ExecEventPayload
  | SendExecFinishedEvent string string string FinishedResult
  | SendInvokeResult SystemRunInvokeResult
  | RunCommand "string list" "string option" "env option" "int option"
  | RunViaMacAppExecHost ExecHostRequest
  | AddAllowlistEntry "string option" string
  | RecordAllowlistUse "string option" ExecAllowlistEntry string "string option"

section \<open>Helpers of the embedding\<close>

text \<open>
  \<^verbatim>\<open>String.prototype.trim\<close> on byte strings: it strips the ASCII white space
  characters (space, tab, line feed, vertical tab, form feed, carriage return).
\<close>

definition isWhiteSpace :: "char \<Rightarrow> bool" where
  "isWhiteSpace c \<longleftrightarrow> c \<in> {CHR '' '', CHR 0x09, CHR 0x0A, CHR 0x0B, CHR 0x0C, CHR 0x0D}"

definition trim :: "string \<Rightarrow> string" where
  "trim s = rev (dropWhile isWhiteSpace (rev (dropWhile isWhiteSpace s)))"

text \<open>\<^verbatim>\<open>x?.trim() || undefined\<close>: an absent or blank string is \<open>None\<close>.\<close>

definition trimmedOrNone :: "string option \<Rightarrow> string option" where
  "trimmedOrNone x =
     (case x of None \<Rightarrow> None
      | Some s \<Rightarrow> (if trim s = [] then None else Some (trim s)))"

text \<open>The truth value of a nullable string: present and not empty.\<close>

definition truthy :: "string option \<Rightarrow> bool" where
  "truthy x = (case x of None \<Rightarrow> False | Some s \<Rightarrow> s \<noteq> [])"

text \<open>\<^verbatim>\<open>a ?? b\<close> on nullable values.\<close>

definition orElse :: "'a option \<Rightarrow> 'a option \<Rightarrow> 'a option" where
  "orElse a b = (case a of None \<Rightarrow> b | Some v \<Rightarrow> Some v)"

text \<open>\<^verbatim>\<open>segments[0]?.argv ?? []\<close> and \<^verbatim>\<open>segments[0]?.resolution?.resolvedPath\<close>.\<close>

definition firstSegmentArgv :: "ExecCommandSegment list \<Rightarrow> string list" where
  "firstSegmentArgv segments = (case segments of [] \<Rightarrow> [] | s # _ \<Rightarrow> argv s)"

definition segmentPath :: "ExecCommandSegment \<Rightarrow> string option" where
  "segmentPath s = (case resolution s of None \<Rightarrow> None | Some r \<Rightarrow> resolvedPath r)"

definition firstSegmentPath :: "ExecCommandSegment list \<Rightarrow> string option" where
  "firstSegmentPath segments = (case segments of [] \<Rightarrow> None | s # _ \<Rightarrow> segmentPath s)"

section \<open>The handler\<close>

text \<open>The two replies of lines 303--316.\<close>

definition invalidRequest :: "string \<Rightarrow> effect list" where
  "invalidRequest msg =
     [SendInvokeResult
        \<lparr>ok = False, payloadJSON = None,
         err = Some \<lparr>code = Some ''INVALID_REQUEST'', message = Some msg\<rparr>\<rparr>]"

text \<open>
  Lines 322--341: the locals that depend on the request and the configuration only.
  \<open>agentIdOf\<close> is \<^verbatim>\<open>agentId\<close>, \<open>approvalsOf\<close> is \<^verbatim>\<open>approvals\<close> (whose
  \<open>approvalsFile\<close> is the allowlist store before the invocation), \<open>sessionKeyOf\<close> is
  \<^verbatim>\<open>sessionKey\<close>, \<open>runIdOf\<close> is \<^verbatim>\<open>runId\<close>, \<open>envOf\<close> is \<^verbatim>\<open>env\<close>,
  \<open>safeBinsOf\<close> is \<^verbatim>\<open>safeBins\<close> and \<open>binsOf\<close> is \<^verbatim>\<open>bins\<close>.
\<close>

definition agentIdOf :: "SystemRunParams \<Rightarrow> string option" where
  "agentIdOf params = trimmedOrNone (agentId params)"

definition agentExecOf :: "'f opts \<Rightarrow> SystemRunParams \<Rightarrow> ExecToolConfig option" where
  "agentExecOf opts params =
     (case agentIdOf params of None \<Rightarrow> None | Some i \<Rightarrow> agent_exec opts i)"

definition approvalsOf :: "'f opts \<Rightarrow> SystemRunParams \<Rightarrow> 'f ExecApprovals" where
  "approvalsOf opts params =
     (let agentExec = agentExecOf opts params;
          configuredSecurity =
            resolveExecSecurity opts
              (orElse (Option.bind agentExec cfg_security)
                 (Option.bind (cfg_exec opts) cfg_security));
          configuredAsk =
            resolveExecAsk opts
              (orElse (Option.bind agentExec cfg_ask) (Option.bind (cfg_exec opts) cfg_ask))
      in resolveExecApprovals opts (agentIdOf params) configuredSecurity configuredAsk)"

definition sessionKeyOf :: "SystemRunParams \<Rightarrow> string" where
  "sessionKeyOf params =
     (case trimmedOrNone (sessionKey params) of None \<Rightarrow> ''node'' | Some s \<Rightarrow> s)"

definition runIdOf :: "'f opts \<Rightarrow> SystemRunParams \<Rightarrow> string" where
  "runIdOf opts params =
     (case trimmedOrNone (runId params) of None \<Rightarrow> randomUUID opts | Some r \<Rightarrow> r)"

definition envOf :: "'f opts \<Rightarrow> SystemRunParams \<Rightarrow> env option" where
  "envOf opts params = sanitizeEnv opts (env params)"

definition safeBinsOf :: "'f opts \<Rightarrow> SystemRunParams \<Rightarrow> string list" where
  "safeBinsOf opts params =
     resolveSafeBins opts
       (orElse (Option.bind (agentExecOf opts params) cfg_safeBins)
          (Option.bind (cfg_exec opts) cfg_safeBins))"

definition binsOf :: "'f opts \<Rightarrow> SystemRunParams \<Rightarrow> string list" where
  "binsOf opts params =
     (if agent_autoAllowSkills (approvalsOf opts params) then skillBins_current opts else [])"

text \<open>
  Lines 342--379: the analysis of the command and the allowlist evaluation, on the shell
  command if there is one and on argv otherwise. The result holds the four variables
  \<^verbatim>\<open>analysisOk\<close>, \<^verbatim>\<open>allowlistMatches\<close>, \<^verbatim>\<open>allowlistSatisfied\<close> and \<^verbatim>\<open>segments\<close>.
\<close>

record Analysis =
  analysisOk :: bool
  allowlistMatches :: "ExecAllowlistEntry list"
  allowlistSatisfied :: bool
  segments :: "ExecCommandSegment list"

definition evaluateCommand :: "'f opts \<Rightarrow> SystemRunParams \<Rightarrow> ResolvedCommand \<Rightarrow> Analysis" where
  "evaluateCommand opts params cmd =
     (let approvals = approvalsOf opts params;
          security = agent_security approvals;
          autoAllowSkills = agent_autoAllowSkills approvals
      in if truthy (rc_shellCommand cmd) then
           (let allowlistEval =
                  evaluateShellAllowlist opts (the (rc_shellCommand cmd)) (allowlist approvals)
                    (safeBinsOf opts params) (cwd params) (envOf opts params)
                    (getTrustedSafeBinDirs opts) (binsOf opts params) autoAllowSkills
                    (platform opts)
            in \<lparr>analysisOk = sh_analysisOk allowlistEval,
                allowlistMatches = sh_allowlistMatches allowlistEval,
                allowlistSatisfied =
                  (if security = ''allowlist'' \<and> sh_analysisOk allowlistEval
                   then sh_allowlistSatisfied allowlistEval else False),
                segments = sh_segments allowlistEval\<rparr>)
         else
           (let analysis = analyzeArgvCommand opts (rc_argv cmd) (cwd params) (envOf opts params);
                allowlistEval =
                  evaluateExecAllowlist opts analysis (allowlist approvals)
                    (safeBinsOf opts params) (cwd params) (getTrustedSafeBinDirs opts)
                    (binsOf opts params) autoAllowSkills
            in \<lparr>analysisOk = an_ok analysis,
                allowlistMatches = ex_allowlistMatches allowlistEval,
                allowlistSatisfied =
                  (if security = ''allowlist'' \<and> an_ok analysis
                   then ex_allowlistSatisfied allowlistEval else False),
                segments = an_segments analysis\<rparr>))"

text \<open>
  Lines 380--387: the rule for \<^verbatim>\<open>cmd.exe\<close> on Windows. \<open>analysisOf\<close> is the value of
  the four variables from line 388 on.
\<close>

definition cmdInvocation :: "'f opts \<Rightarrow> ResolvedCommand \<Rightarrow> ExecCommandSegment list \<Rightarrow> bool" where
  "cmdInvocation opts cmd segs =
     (if truthy (rc_shellCommand cmd) then isCmdExeInvocation opts (firstSegmentArgv segs)
      else isCmdExeInvocation opts (rc_argv cmd))"

definition analysisOf :: "'f opts \<Rightarrow> SystemRunParams \<Rightarrow> ResolvedCommand \<Rightarrow> Analysis" where
  "analysisOf opts params cmd =
     (let a = evaluateCommand opts params cmd
      in if agent_security (approvalsOf opts params) = ''allowlist''
            \<and> platform opts = ''win32'' \<and> cmdInvocation opts cmd (segments a)
         then a\<lparr>analysisOk := False, allowlistSatisfied := False\<rparr>
         else a)"

text \<open>Lines 508--517: one allowlist entry for each segment that has a resolved path.\<close>

fun addEntries ::
  "'f opts \<Rightarrow> string option \<Rightarrow> ExecCommandSegment list \<Rightarrow> 'f \<Rightarrow> effect list \<times> 'f" where
  "addEntries opts aid [] f = ([], f)"
| "addEntries opts aid (s # ss) f =
     (if truthy (segmentPath s) then
        (let p = the (segmentPath s);
             (t, f') = addEntries opts aid ss (addAllowlistEntry opts f aid p)
         in (AddAllowlistEntry aid p # t, f'))
      else addEntries opts aid ss f)"

text \<open>
  Lines 538--553: one use recorded for each match with a pattern not seen before;
  a match without a pattern is skipped.
\<close>

fun recordUses ::
  "'f opts \<Rightarrow> string option \<Rightarrow> string \<Rightarrow> string option \<Rightarrow> string list \<Rightarrow>
   ExecAllowlistEntry list \<Rightarrow> 'f \<Rightarrow> effect list \<times> 'f" where
  "recordUses opts aid cmdText rp seen [] f = ([], f)"
| "recordUses opts aid cmdText rp seen (m # ms) f =
     (if pattern m = [] \<or> pattern m \<in> set seen then recordUses opts aid cmdText rp seen ms f
      else
        (let (t, f') = recordUses opts aid cmdText rp (pattern m # seen) ms
                         (recordAllowlistUse opts f aid m cmdText rp)
         in (RecordAllowlistUse aid m cmdText rp # t, f')))"

text \<open>Lines 485--489 (and 391--395): the decision that counts and \<^verbatim>\<open>approvedByAsk\<close>.\<close>

definition normalizedDecision :: "SystemRunParams \<Rightarrow> string option" where
  "normalizedDecision params =
     (if approvalDecision params = Some ''allow-once''
         \<or> approvalDecision params = Some ''allow-always''
      then approvalDecision params else None)"

definition approvedByAsk :: "SystemRunParams \<Rightarrow> bool" where
  "approvedByAsk params \<longleftrightarrow> normalizedDecision params \<noteq> None \<or> approved params = Some True"

text \<open>Lines 574--586: the argv handed to \<^verbatim>\<open>runCommand\<close>.\<close>

definition selectExecArgv :: "'f opts \<Rightarrow> SystemRunParams \<Rightarrow> ResolvedCommand \<Rightarrow> string list" where
  "selectExecArgv opts params cmd =
     (let a = analysisOf opts params cmd
      in if agent_security (approvalsOf opts params) = ''allowlist''
            \<and> platform opts = ''win32'' \<and> \<not> approvedByAsk params
            \<and> truthy (rc_shellCommand cmd) \<and> analysisOk a \<and> allowlistSatisfied a
            \<and> length (segments a) = 1 \<and> length (firstSegmentArgv (segments a)) > 0
         then firstSegmentArgv (segments a) else rc_argv cmd)"

text \<open>Lines 594--601: the marker appended to a truncated result.\<close>

definition markTruncated :: "RunResult \<Rightarrow> RunResult" where
  "markTruncated r =
     (if truncated r then
        (if length (trim (stderr r)) > 0
         then r\<lparr>stderr := stderr r @ [CHR 0x0A] @ ''... (truncated)''\<rparr>
         else r\<lparr>stdout := stdout r @ [CHR 0x0A] @ ''... (truncated)''\<rparr>)
      else r)"

definition finishedOf :: "RunResult \<Rightarrow> FinishedResult" where
  "finishedOf r =
     \<lparr>fin_stdout = Some (stdout r), fin_stderr = Some (stderr r), fin_error = error r,
      fin_exitCode = exitCode r, fin_timedOut = Some (timedOut r),
      fin_success = Some (success r)\<rparr>"

text \<open>Lines 574--614: the dispatch to the executor, the finished event and the reply.\<close>

definition runAndReply :: "'f opts \<Rightarrow> SystemRunParams \<Rightarrow> ResolvedCommand \<Rightarrow> effect list" where
  "runAndReply opts params cmd =
     (let execArgv = selectExecArgv opts params cmd;
          runCwd = trimmedOrNone (cwd params);
          result =
            markTruncated
              (runCommand opts execArgv runCwd (envOf opts params) (timeoutMs params))
      in [RunCommand execArgv runCwd (envOf opts params) (timeoutMs params),
          SendExecFinishedEvent (sessionKeyOf params) (runIdOf opts params) (rc_cmdText cmd)
            (finishedOf result),
          SendInvokeResult
            \<lparr>ok = True,
             payloadJSON =
               Some (RunResultJSON (exitCode result) (timedOut result) (success result)
                       (stdout result) (stderr result) (error result)),
             err = None\<rparr>])"

text \<open>
  The block that reports a denial occurs six times in the handler (lines 410--428,
  432--447, 460--475, 491--506, 520--535 and 556--571): an \<^verbatim>\<open>exec.denied\<close> node event
  with the given reason, then the reply with code \<^verbatim>\<open>UNAVAILABLE\<close> and the given
  message.
\<close>

definition deniedEvent :: "'f opts \<Rightarrow> SystemRunParams \<Rightarrow> ResolvedCommand \<Rightarrow> string \<Rightarrow> effect" where
  "deniedEvent opts params cmd reason =
     SendNodeEvent ''exec.denied''
       (buildExecEventPayload opts
          \<lparr>ev_sessionKey = sessionKeyOf params, ev_runId = runIdOf opts params,
           ev_host = ''node'', ev_command = Some (rc_cmdText cmd), ev_exitCode = None,
           ev_timedOut = None, ev_success = None, ev_output = None,
           ev_reason = Some reason\<rparr>)"

definition unavailable :: "string \<Rightarrow> effect" where
  "unavailable msg =
     SendInvokeResult
       \<lparr>ok = False, payloadJSON = None,
        err = Some \<lparr>code = Some ''UNAVAILABLE'', message = Some msg\<rparr>\<rparr>"

definition denial ::
  "'f opts \<Rightarrow> SystemRunParams \<Rightarrow> ResolvedCommand \<Rightarrow> string \<Rightarrow> string \<Rightarrow> effect list" where
  "denial opts params cmd reason msg = [deniedEvent opts params cmd reason, unavailable msg]"

text \<open>
  Lines 459--614: the path on which the handler itself decides and runs the command.
  The result is the trace of effects and the approvals file as it is left.
\<close>

definition localPath :: "'f opts \<Rightarrow> SystemRunParams \<Rightarrow> ResolvedCommand \<Rightarrow> effect list \<times> 'f" where
  "localPath opts params cmd =
     (let approvals = approvalsOf opts params;
          security = agent_security approvals;
          ask = agent_ask approvals;
          a = analysisOf opts params cmd
      in if security = ''deny'' then
           (denial opts params cmd ''security=deny'' ''SYSTEM_RUN_DISABLED: security=deny'',
            approvalsFile approvals)
         else
           (let requiresAsk =
                  requiresExecApproval opts ask security (analysisOk a) (allowlistSatisfied a)
            in if requiresAsk \<and> \<not> approvedByAsk params then
                 (denial opts params cmd ''approval-required''
                    ''SYSTEM_RUN_DENIED: approval required'',
                  approvalsFile approvals)
               else
                 (let (t1, f1) =
                        (if normalizedDecision params = Some ''allow-always''
                            \<and> security = ''allowlist'' \<and> analysisOk a
                         then addEntries opts (agentIdOf params) (segments a)
                                (approvalsFile approvals)
                         else ([], approvalsFile approvals))
                  in if security = ''allowlist''
                        \<and> (\<not> analysisOk a \<or> \<not> allowlistSatisfied a)
                        \<and> \<not> approvedByAsk params then
                       (t1 @ denial opts params cmd ''allowlist-miss''
                               ''SYSTEM_RUN_DENIED: allowlist miss'',
                        f1)
                     else
                       (let (t2, f2) =
                              recordUses opts (agentIdOf params) (rc_cmdText cmd)
                                (firstSegmentPath (segments a)) [] (allowlistMatches a) f1
                        in if needsScreenRecording params = Some True then
                             (t1 @ t2 @ denial opts params cmd ''permission:screenRecording''
                                          ''PERMISSION_MISSING: screenRecording'',
                              f2)
                           else (t1 @ t2 @ runAndReply opts params cmd, f2)))))"

text \<open>
  Lines 389--457: on macOS the request goes to the companion app's exec host. The second
  component is \<open>None\<close> when the handler falls through to the local path (no response,
  fallback allowed and not enforced).
\<close>

definition execRequestOf :: "'f opts \<Rightarrow> SystemRunParams \<Rightarrow> ResolvedCommand \<Rightarrow> ExecHostRequest" where
  "execRequestOf opts params cmd =
     \<lparr>rq_command = rc_argv cmd,
      rq_rawCommand =
        (if truthy (rc_rawCommand cmd) then rc_rawCommand cmd
         else if truthy (rc_shellCommand cmd) then rc_shellCommand cmd else None),
      rq_cwd = cwd params, rq_env = env params, rq_timeoutMs = timeoutMs params,
      rq_needsScreenRecording = needsScreenRecording params,
      rq_agentId = agentIdOf params, rq_sessionKey = Some (sessionKeyOf params),
      rq_approvalDecision = normalizedDecision params\<rparr>"

definition macPath ::
  "'f opts \<Rightarrow> SystemRunParams \<Rightarrow> ResolvedCommand \<Rightarrow> effect list \<times> (effect list) option" where
  "macPath opts params cmd =
     (let execRequest = execRequestOf opts params cmd;
          call = [RunViaMacAppExecHost execRequest]
      in case runViaMacAppExecHost opts (approvalsOf opts params) execRequest of
           None \<Rightarrow>
             (if execHostEnforced opts \<or> \<not> execHostFallbackAllowed opts then
                (call, Some (denial opts params cmd ''companion-unavailable''
                   ''COMPANION_APP_UNAVAILABLE: macOS app exec host unreachable''))
              else (call, None))
         | Some (HostError reason msg) \<Rightarrow>
             (call, Some (denial opts params cmd
                (case reason of None \<Rightarrow> ''approval-required'' | Some r \<Rightarrow> r) msg))
         | Some (HostOk result) \<Rightarrow>
             (call, Some [SendExecFinishedEvent (sessionKeyOf params) (runIdOf opts params)
                            (rc_cmdText cmd) result,
                SendInvokeResult
                  \<lparr>ok = True, payloadJSON = Some (HostResultJSON result), err = None\<rparr>]))"

text \<open>
  Lines 299--615: the handler. The second component is the approvals file after the
  invocation; it is \<open>None\<close> when the request is refused before the approvals are loaded.
\<close>

definition handleSystemRunInvoke :: "'f opts \<Rightarrow> SystemRunParams \<Rightarrow> effect list \<times> 'f option" where
  "handleSystemRunInvoke opts params =
     (case resolveSystemRunCommand opts (Some (command params)) (rawCommand params) of
        Inl failure \<Rightarrow> (invalidRequest (cf_message failure), None)
      | Inr cmd \<Rightarrow>
          if length (rc_argv cmd) = 0 then (invalidRequest ''command required'', None)
          else if platform opts = ''darwin'' then
            (case macPath opts params cmd of
               (call, Some t) \<Rightarrow> (call @ t, Some (approvalsFile (approvalsOf opts params)))
             | (call, None) \<Rightarrow>
                 (let (t, f) = localPath opts params cmd in (call @ t, Some f)))
          else (let (t, f) = localPath opts params cmd in (t, Some f)))"

section \<open>The command normalizer\<close>

text \<open>
  The module \<^verbatim>\<open>src/infra/system-run-command.ts\<close> is known only through its tests
  (\<^verbatim>\<open>system-run-command.test.ts\<close>) and through the call at line 299 of the handler. Its
  functions are modelled from sections 3, 4.1 and 4.2 of the specification.
\<close>

text \<open>\<^verbatim>\<open>Array.prototype.join\<close>: the entries with the separator between them.\<close>

definition joinWith :: "string \<Rightarrow> string list \<Rightarrow> string" where
  "joinWith sep xs = (case xs of [] \<Rightarrow> [] | y # ys \<Rightarrow> y @ concat (map (\<lambda>z. sep @ z) ys))"

text \<open>
  Modelled from the spec: the notions of basename and of case-insensitive comparison
  that section 4.2 uses without defining them. The basename is what follows the last
  \<^verbatim>\<open>/\<close> or backslash; comparison ignores the case of the ASCII letters.
\<close>

definition basename :: "string \<Rightarrow> string" where
  "basename s = rev (takeWhile (\<lambda>c. c \<noteq> CHR ''/'' \<and> c \<noteq> CHR 0x5C) (rev s))"

definition lowerChar :: "char \<Rightarrow> char" where
  "lowerChar c =
     (case map_of (zip ''ABCDEFGHIJKLMNOPQRSTUVWXYZ'' ''abcdefghijklmnopqrstuvwxyz'') c of
        None \<Rightarrow> c | Some l \<Rightarrow> l)"

definition toLowerCase :: "string \<Rightarrow> string" where
  "toLowerCase s = map lowerChar s"

text \<open>
  Modelled from the spec: \<^verbatim>\<open>formatExecCommand\<close>, the \<^verbatim>\<open>format\<close> of section 4.1. A
  token without any of the listed characters is emitted as it is; any other token is put
  in double quotes, with a backslash before each double quote and backslash. Tokens are
  joined by one space. The entry ``quote'' of the list is read as both quote characters.
\<close>

definition shellSpecial :: "char \<Rightarrow> bool" where
  "shellSpecial c \<longleftrightarrow>
     c \<in> set ([CHR '' '', CHR 0x09, CHR 0x22, CHR 0x27, CHR 0x5C] @ ''$`&|;<>()*?[]{}#~!'')"

definition escapeChar :: "char \<Rightarrow> string" where
  "escapeChar c = (if c = CHR 0x22 \<or> c = CHR 0x5C then [CHR 0x5C, c] else [c])"

definition formatToken :: "string \<Rightarrow> string" where
  "formatToken t =
     (if list_ex shellSpecial t then [CHR 0x22] @ concat (map escapeChar t) @ [CHR 0x22]
      else t)"

definition formatExecCommand :: "string list \<Rightarrow> string" where
  "formatExecCommand av = joinWith '' '' (map formatToken av)"

text \<open>
  Modelled from the spec: \<^verbatim>\<open>extractShellCommandFromArgv\<close>, section 4.2. For a POSIX
  shell with \<^verbatim>\<open>-c\<close> or \<^verbatim>\<open>-lc\<close> and at least three entries, the third entry. For
  \<^verbatim>\<open>cmd.exe\<close>, with \<open>i\<close> the index of the first \<^verbatim>\<open>/c\<close> or \<^verbatim>\<open>/k\<close> among the
  arguments, the entries after \<open>i\<close> joined by one space if there is any. Otherwise null.
\<close>

definition isPosixShell :: "string \<Rightarrow> bool" where
  "isPosixShell a0 \<longleftrightarrow> basename a0 \<in> {''sh'', ''bash'', ''dash'', ''zsh''}"

definition isCmdExe :: "string \<Rightarrow> bool" where
  "isCmdExe a0 \<longleftrightarrow> toLowerCase (basename a0) \<in> {''cmd.exe'', ''cmd''}"

definition isCommandFlag :: "string \<Rightarrow> bool" where
  "isCommandFlag t \<longleftrightarrow> toLowerCase t \<in> {''/c'', ''/k''}"

fun firstIndex :: "('a \<Rightarrow> bool) \<Rightarrow> 'a list \<Rightarrow> nat option" where
  "firstIndex P [] = None"
| "firstIndex P (x # xs) =
     (if P x then Some 0 else map_option Suc (firstIndex P xs))"

definition extractShellCommandFromArgv :: "string list \<Rightarrow> string option" where
  "extractShellCommandFromArgv av =
     (case av of
        [] \<Rightarrow> None
      | a0 # args \<Rightarrow>
          if isPosixShell a0 \<and> length av \<ge> 3 \<and> av ! 1 \<in> {''-c'', ''-lc''} then Some (av ! 2)
          else if isCmdExe a0 then
            (case map_option Suc (firstIndex isCommandFlag args) of
               None \<Rightarrow> None
             | Some i \<Rightarrow>
                 if length av > i + 1 then Some (joinWith '' '' (drop (i + 1) av)) else None)
          else None)"

text \<open>
  Modelled from the spec: \<^verbatim>\<open>validateSystemRunCommandConsistency\<close>, the invariant of the
  request in section 3. A raw command that is present needs a non-empty argv and must be
  the rendering of argv or the command embedded in a shell wrapper; the command text is
  the shell command if there is one, else the rendering of argv. The messages are the ones
  the tests look for.
\<close>

definition validateSystemRunCommandConsistency ::
  "string list \<Rightarrow> string option \<Rightarrow> CommandFailure + ResolvedCommand" where
  "validateSystemRunCommandConsistency av raw =
     (let shellCommand = extractShellCommandFromArgv av;
          cmdText = (case shellCommand of None \<Rightarrow> formatExecCommand av | Some s \<Rightarrow> s);
          resolved = \<lparr>rc_argv = av, rc_rawCommand = raw, rc_shellCommand = shellCommand,
                      rc_cmdText = cmdText\<rparr>
      in case raw of
           None \<Rightarrow> Inr resolved
         | Some r \<Rightarrow>
             if av \<noteq> [] \<and> (r = formatExecCommand av \<or> shellCommand = Some r) then Inr resolved
             else Inl \<lparr>cf_message = ''INVALID_REQUEST: rawCommand does not match command'',
                       cf_code = Some ''RAW_COMMAND_MISMATCH''\<rparr>)"

text \<open>
  Modelled from the spec: \<^verbatim>\<open>resolveSystemRunCommand\<close>, the normalizer of sections 1
  and 3. A raw command without a command is refused with \<^verbatim>\<open>MISSING_COMMAND\<close>; otherwise
  the consistency check decides.
\<close>

definition resolveSystemRunCommand_spec ::
  "string list option \<Rightarrow> string option \<Rightarrow> CommandFailure + ResolvedCommand" where
  "resolveSystemRunCommand_spec cmd raw =
     (let av = (case cmd of None \<Rightarrow> [] | Some a \<Rightarrow> a)
      in if av = [] \<and> raw \<noteq> None then
           Inl \<lparr>cf_message = ''rawCommand requires params.command'',
                 cf_code = Some ''MISSING_COMMAND''\<rparr>
         else validateSystemRunCommandConsistency av raw)"

section \<open>The approval binding\<close>

text \<open>
  The module \<^verbatim>\<open>src/gateway/node-invoke-system-run-approval.ts\<close> is known only through
  its test (\<^verbatim>\<open>node-invoke-system-run-approval.test.ts\<close>).
\<close>

text \<open>
  Modelled from the spec: the approval record of section 3 and the client that forwards
  the request, with the field names of the test.
\<close>

record ApprovalRequest =
  ar_host :: string
  ar_command :: string
  ar_cwd :: "string option"
  ar_agentId :: "string option"
  ar_sessionKey :: "string option"

record ExecApprovalRecord =
  ap_id :: string
  ap_request :: ApprovalRequest
  ap_createdAtMs :: int
  ap_expiresAtMs :: int
  ap_requestedByConnId :: "string option"
  ap_resolvedAtMs :: "int option"
  ap_decision :: string
  ap_resolvedBy :: "string option"

record GatewayClient =
  connId :: string
  scopes :: "string list"

definition isApproval :: "string \<Rightarrow> bool" where
  "isApproval d \<longleftrightarrow> d = ''allow-once'' \<or> d = ''allow-always''"

text \<open>
  Modelled from the spec: \<^verbatim>\<open>sanitizeSystemRunParamsForForwarding\<close>, the operation
  \<^verbatim>\<open>sanitizeForForwarding\<close> of section 4.5. It checks (a) that the incoming command is
  consistent, (b) that the approval record whose id is the run id of the request is
  approved and the requester holds the required scopes, (c) that the command text of the
  request is the command text of the record; only then it returns the parameters with
  \<^verbatim>\<open>approved\<close> set and the recorded decision. The required scopes and the snapshot
  function of the approval manager are arguments; the spec does not give the texts of the
  failure messages of (b) and (c).
\<close>

definition sanitizeSystemRunParamsForForwarding ::
  "string list \<Rightarrow> (string \<Rightarrow> ExecApprovalRecord option) \<Rightarrow> GatewayClient \<Rightarrow> int \<Rightarrow>
   SystemRunParams \<Rightarrow> CommandFailure + SystemRunParams" where
  "sanitizeSystemRunParamsForForwarding required getSnapshot client nowMs rawParams =
     (case resolveSystemRunCommand_spec (Some (command rawParams)) (rawCommand rawParams) of
        Inl failure \<Rightarrow> Inl failure
      | Inr cmd \<Rightarrow>
          (case Option.bind (runId rawParams) getSnapshot of
             None \<Rightarrow> Inl \<lparr>cf_message = ''approval record not found'', cf_code = None\<rparr>
           | Some r \<Rightarrow>
               if \<not> (Some (ap_id r) = runId rawParams \<and> isApproval (ap_decision r)
                      \<and> list_all (\<lambda>s. s \<in> set (scopes client)) required)
               then Inl \<lparr>cf_message = ''approval record not approved'', cf_code = None\<rparr>
               else if rc_cmdText cmd \<noteq> ar_command (ap_request r)
               then Inl \<lparr>cf_message = ''approval does not match the command'',
                         cf_code = None\<rparr>
               else Inr (rawParams\<lparr>approved := Some True,
                                   approvalDecision := Some (ap_decision r)\<rparr>)))"

section \<open>Collaborators of the handler, from the specification\<close>

text \<open>
  Modelled from the spec: \<^verbatim>\<open>isCmdExeInvocation\<close>, passed in through \<^verbatim>\<open>opts\<close>: the
  invocation is \<^verbatim>\<open>cmd.exe\<close> when the basename of its program is \<^verbatim>\<open>cmd.exe\<close> or
  \<^verbatim>\<open>cmd\<close>, in any case (sections 4.2 and 4.6).
\<close>

definition isCmdExeInvocation_spec :: "string list \<Rightarrow> bool" where
  "isCmdExeInvocation_spec av = (case av of [] \<Rightarrow> False | a0 # _ \<Rightarrow> isCmdExe a0)"

text \<open>
  Modelled from the spec: \<^verbatim>\<open>requiresExecApproval\<close> of \<^verbatim>\<open>exec-approvals.ts\<close>,
  section 4.6. An \<^verbatim>\<open>ask\<close> value outside the three of the spec asks for nothing.
\<close>

definition requiresExecApproval_spec :: "string \<Rightarrow> string \<Rightarrow> bool \<Rightarrow> bool \<Rightarrow> bool" where
  "requiresExecApproval_spec ask security aOk satisfied =
     (if ask = ''always'' then True
      else if ask = ''never'' then False
      else if ask = ''untrusted'' then
        (security = ''allowlist'' \<and> (\<not> aOk \<or> \<not> satisfied)) \<or> (security = ''off'' \<and> \<not> aOk)
      else False)"

text \<open>
  Modelled from the spec: \<^verbatim>\<open>addAllowlistEntry\<close> and \<^verbatim>\<open>recordAllowlistUse\<close> of
  \<^verbatim>\<open>exec-approvals.ts\<close>, the \<^verbatim>\<open>addEntry\<close> and \<^verbatim>\<open>recordUse\<close> of section 4.4, on
  a store that is the list of its entries. Insertion is idempotent and refuses a pattern
  that is not absolute (one that does not start with \<^verbatim>\<open>/\<close> or a drive letter and colon);
  a recorded use increments the use count of the entry and updates its last use.
\<close>

definition isAbsolutePath :: "string \<Rightarrow> bool" where
  "isAbsolutePath p =
     (case p of [] \<Rightarrow> False
      | c # cs \<Rightarrow> c = CHR ''/'' \<or> (case cs of [] \<Rightarrow> False | d # _ \<Rightarrow> d = CHR '':''))"

definition addAllowlistEntry_spec ::
  "int \<Rightarrow> ExecAllowlistEntry list \<Rightarrow> string option \<Rightarrow> string \<Rightarrow> ExecAllowlistEntry list" where
  "addAllowlistEntry_spec now store aid p =
     (if \<not> isAbsolutePath p then store
      else if list_ex (\<lambda>e. pattern e = p \<and> entryAgentId e = aid) store then store
      else store @ [\<lparr>pattern = p, entryAgentId = aid, useCount = 0, lastUsedAtMs = None,
                     createdAtMs = Some now, lastCmdText = None\<rparr>])"

definition recordAllowlistUse_spec ::
  "int \<Rightarrow> ExecAllowlistEntry list \<Rightarrow> string option \<Rightarrow> ExecAllowlistEntry \<Rightarrow> string \<Rightarrow>
   string option \<Rightarrow> ExecAllowlistEntry list" where
  "recordAllowlistUse_spec now store aid m cmdText rp =
     map (\<lambda>e. if pattern e = pattern m \<and> entryAgentId e = entryAgentId m
               then e\<lparr>useCount := useCount e + 1, lastUsedAtMs := Some now,
                      lastCmdText := Some cmdText\<rparr>
               else e) store"

text \<open>The keys of a store: the agent and pattern of each entry.\<close>

definition entryKeys :: "ExecAllowlistEntry list \<Rightarrow> (string option \<times> string) set" where
  "entryKeys store = (\<lambda>e. (entryAgentId e, pattern e)) ` set store"

section \<open>Concrete hosts\<close>

text \<open>
  A host on which the handler can be run: the platform, the resolved security and ask
  settings, the allowlist store, what the analysis of the request at hand returns (for its
  shell command, or for its argv), and the response of the macOS exec host, if any. The
  normalizer, the approval rule, the \<^verbatim>\<open>cmd.exe\<close> test and the store operations are the
  ones modelled from the specification; the executor prints \<^verbatim>\<open>hi\<close>.
\<close>

definition sampleHost ::
  "string \<Rightarrow> string \<Rightarrow> string \<Rightarrow> ExecAllowlistEntry list \<Rightarrow> ShellAllowlistEval \<Rightarrow>
   ArgvAnalysis \<Rightarrow> ExecAllowlistEval \<Rightarrow> ExecHostResponse option \<Rightarrow>
   (ExecAllowlistEntry list) opts" where
  "sampleHost plat security ask store shellEval analysis execEval hostResponse =
     \<lparr>platform = plat,
      randomUUID = ''run-1'',
      cfg_exec = None,
      agent_exec = (\<lambda>_. None),
      execHostEnforced = False,
      execHostFallbackAllowed = True,
      resolveExecSecurity = (\<lambda>_. security),
      resolveExecAsk = (\<lambda>_. ask),
      isCmdExeInvocation = isCmdExeInvocation_spec,
      sanitizeEnv = (\<lambda>e. e),
      runCommand = (\<lambda>_ _ _ _. \<lparr>exitCode = Some 0, timedOut = False, success = True,
                                stdout = ''hi'', stderr = [], error = None,
                                truncated = False\<rparr>),
      runViaMacAppExecHost = (\<lambda>_ _. hostResponse),
      buildExecEventPayload = (\<lambda>p. p),
      skillBins_current = [],
      resolveSystemRunCommand = resolveSystemRunCommand_spec,
      resolveExecApprovals =
        (\<lambda>_ s a. \<lparr>agent_security = s, agent_ask = a, agent_autoAllowSkills = False,
                   allowlist = store, approvalsFile = store\<rparr>),
      resolveSafeBins = (\<lambda>_. []),
      getTrustedSafeBinDirs = [],
      evaluateShellAllowlist = (\<lambda>_ _ _ _ _ _ _ _ _. shellEval),
      analyzeArgvCommand = (\<lambda>_ _ _. analysis),
      evaluateExecAllowlist = (\<lambda>_ _ _ _ _ _ _. execEval),
      requiresExecApproval = requiresExecApproval_spec,
      addAllowlistEntry = addAllowlistEntry_spec 0,
      recordAllowlistUse = recordAllowlistUse_spec 0\<rparr>"

text \<open>A request with the given argv and nothing else.\<close>

definition request :: "string list \<Rightarrow> SystemRunParams" where
  "request av =
     \<lparr>command = av, rawCommand = None, cwd = None, env = None, timeoutMs = None,
      needsScreenRecording = None, agentId = None, sessionKey = None, approved = None,
      approvalDecision = None, runId = Some ''approval-1''\<rparr>"

section \<open>Observations on traces\<close>

fun isDenied :: "effect \<Rightarrow> bool" where
  "isDenied (SendNodeEvent n p) = (n = ''exec.denied'')"
| "isDenied _ = False"

fun isFinished :: "effect \<Rightarrow> bool" where
  "isFinished (SendExecFinishedEvent sk rid ct r) = True"
| "isFinished _ = False"

fun isExecEvent :: "effect \<Rightarrow> bool" where
  "isExecEvent (SendNodeEvent n p) = True"
| "isExecEvent (SendExecFinishedEvent sk rid ct r) = True"
| "isExecEvent _ = False"

fun isStoreCall :: "effect \<Rightarrow> bool" where
  "isStoreCall (AddAllowlistEntry a p) = True"
| "isStoreCall (RecordAllowlistUse a m c r) = True"
| "isStoreCall _ = False"

fun isAddEntry :: "effect \<Rightarrow> bool" where
  "isAddEntry (AddAllowlistEntry a p) = True"
| "isAddEntry _ = False"

fun isRunCommand :: "effect \<Rightarrow> bool" where
  "isRunCommand (RunCommand a c e t) = True"
| "isRunCommand _ = False"

fun replyOf :: "effect \<Rightarrow> SystemRunInvokeResult option" where
  "replyOf (SendInvokeResult r) = Some r"
| "replyOf _ = None"

definition replies :: "effect list \<Rightarrow> SystemRunInvokeResult list" where
  "replies t = List.map_filter replyOf t"

definition errCode :: "SystemRunInvokeResult \<Rightarrow> string option" where
  "errCode r = Option.bind (err r) code"

definition errMessage :: "SystemRunInvokeResult \<Rightarrow> string option" where
  "errMessage r = Option.bind (err r) message"

text \<open>
  A request is accepted when it gets past the two replies of lines 303--316: the
  normalizer succeeds and its argv is not empty.
\<close>

definition accepted :: "'f opts \<Rightarrow> SystemRunParams \<Rightarrow> bool" where
  "accepted opts params =
     (case resolveSystemRunCommand opts (Some (command params)) (rawCommand params) of
        Inl _ \<Rightarrow> False
      | Inr cmd \<Rightarrow> rc_argv cmd \<noteq> [])"

text \<open>
  The handler decides by itself, on the local path, when the platform is not macOS, or
  when the exec host gave no response and the fallback applies (lines 389, 408--409).
\<close>

definition decidedLocally :: "'f opts \<Rightarrow> SystemRunParams \<Rightarrow> ResolvedCommand \<Rightarrow> bool" where
  "decidedLocally opts params cmd \<longleftrightarrow>
     platform opts \<noteq> ''darwin''
     \<or> (runViaMacAppExecHost opts (approvalsOf opts params) (execRequestOf opts params cmd) = None
        \<and> \<not> execHostEnforced opts \<and> execHostFallbackAllowed opts)"

section \<open>Concrete requests\<close>

text \<open>Analysis results that are not consulted on the path a request takes.\<close>

definition noShellEval :: ShellAllowlistEval where
  "noShellEval =
     \<lparr>sh_analysisOk = False, sh_allowlistMatches = [], sh_allowlistSatisfied = False,
      sh_segments = []\<rparr>"

definition noAnalysis :: ArgvAnalysis where
  "noAnalysis = \<lparr>an_ok = False, an_segments = []\<rparr>"

definition noExecEval :: ExecAllowlistEval where
  "noExecEval = \<lparr>ex_allowlistMatches = [], ex_allowlistSatisfied = False\<rparr>"

definition entryFor :: "string \<Rightarrow> ExecAllowlistEntry" where
  "entryFor p =
     \<lparr>pattern = p, entryAgentId = None, useCount = 0, lastUsedAtMs = None,
      createdAtMs = Some 0, lastCmdText = None\<rparr>"

definition segmentFor :: "string list \<Rightarrow> string \<Rightarrow> ExecCommandSegment" where
  "segmentFor av p = \<lparr>argv = av, resolution = Some \<lparr>resolvedPath = Some p\<rparr>\<rparr>"

text \<open>
  \<^verbatim>\<open>cmd.exe /c whoami\<close> on Windows under the allowlist policy, with \<^verbatim>\<open>whoami.exe\<close> on
  the allowlist: the shell command \<^verbatim>\<open>whoami\<close> is one segment, resolved and matched.
\<close>

definition whoamiPath :: string where
  "whoamiPath = ''C:/Windows/System32/whoami.exe''"

definition whoamiShellEval :: ShellAllowlistEval where
  "whoamiShellEval =
     \<lparr>sh_analysisOk = True, sh_allowlistMatches = [entryFor whoamiPath],
      sh_allowlistSatisfied = True, sh_segments = [segmentFor [''whoami''] whoamiPath]\<rparr>"

definition wrappedWhoamiHost :: "(ExecAllowlistEntry list) opts" where
  "wrappedWhoamiHost =
     sampleHost ''win32'' ''allowlist'' ''untrusted'' [entryFor whoamiPath] whoamiShellEval
       noAnalysis noExecEval None"

definition wrappedWhoami :: SystemRunParams where
  "wrappedWhoami = request [''cmd.exe'', ''/c'', ''whoami'']"

definition wrappedWhoamiCommand :: ResolvedCommand where
  "wrappedWhoamiCommand =
     \<lparr>rc_argv = [''cmd.exe'', ''/c'', ''whoami''], rc_rawCommand = None,
      rc_shellCommand = Some ''whoami'', rc_cmdText = ''whoami''\<rparr>"

text \<open>
  \<^verbatim>\<open>cmd.exe /d\<close> on the same host, with \<^verbatim>\<open>cmd.exe\<close> itself on the allowlist: there
  is no shell command, and the analysis of argv is one segment, resolved and matched.
\<close>

definition cmdPath :: string where
  "cmdPath = ''C:/Windows/System32/cmd.exe''"

definition directCmdHost :: "(ExecAllowlistEntry list) opts" where
  "directCmdHost =
     sampleHost ''win32'' ''allowlist'' ''untrusted'' [entryFor cmdPath] noShellEval
       \<lparr>an_ok = True, an_segments = [segmentFor [''cmd.exe'', ''/d''] cmdPath]\<rparr>
       \<lparr>ex_allowlistMatches = [entryFor cmdPath], ex_allowlistSatisfied = True\<rparr> None"

definition directCmd :: SystemRunParams where
  "directCmd = request [''cmd.exe'', ''/d'']"

definition directCmdCommand :: ResolvedCommand where
  "directCmdCommand =
     \<lparr>rc_argv = [''cmd.exe'', ''/d''], rc_rawCommand = None, rc_shellCommand = None,
      rc_cmdText = ''cmd.exe /d''\<rparr>"

text \<open>
  \<^verbatim>\<open>/bin/echo hi\<close> on Linux, with \<^verbatim>\<open>/bin/echo\<close> on the allowlist; the host is given
  its security and ask settings.
\<close>

definition echoHost :: "string \<Rightarrow> string \<Rightarrow> (ExecAllowlistEntry list) opts" where
  "echoHost security ask =
     sampleHost ''linux'' security ask [entryFor ''/bin/echo''] noShellEval
       \<lparr>an_ok = True, an_segments = [segmentFor [''/bin/echo'', ''hi''] ''/bin/echo'']\<rparr>
       \<lparr>ex_allowlistMatches = [entryFor ''/bin/echo''], ex_allowlistSatisfied = True\<rparr> None"

definition echoHi :: SystemRunParams where
  "echoHi = request [''/bin/echo'', ''hi'']"

definition echoHiCommand :: ResolvedCommand where
  "echoHiCommand =
     \<lparr>rc_argv = [''/bin/echo'', ''hi''], rc_rawCommand = None, rc_shellCommand = None,
      rc_cmdText = ''/bin/echo hi''\<rparr>"

definition echoHiScreen :: SystemRunParams where
  "echoHiScreen = echoHi\<lparr>needsScreenRecording := Some True\<rparr>"

definition echoHiScreenAlways :: SystemRunParams where
  "echoHiScreenAlways = echoHiScreen\<lparr>approvalDecision := Some ''allow-always''\<rparr>"

definition echoHiApproved :: SystemRunParams where
  "echoHiApproved = echoHi\<lparr>approved := Some True\<rparr>"

definition usedEchoEntry :: ExecAllowlistEntry where
  "usedEchoEntry =
     \<lparr>pattern = ''/bin/echo'', entryAgentId = None, useCount = 1, lastUsedAtMs = Some 0,
      createdAtMs = Some 0, lastCmdText = Some ''/bin/echo hi''\<rparr>"

text \<open>The same request on macOS, where the exec host of the companion app answers.\<close>

definition macHost :: "string \<Rightarrow> ExecHostResponse option \<Rightarrow> (ExecAllowlistEntry list) opts" where
  "macHost security response =
     sampleHost ''darwin'' security ''untrusted'' [entryFor ''/bin/echo''] noShellEval
       \<lparr>an_ok = True, an_segments = [segmentFor [''/bin/echo'', ''hi''] ''/bin/echo'']\<rparr>
       \<lparr>ex_allowlistMatches = [entryFor ''/bin/echo''], ex_allowlistSatisfied = True\<rparr>
       response"

definition printedHi :: FinishedResult where
  "printedHi =
     \<lparr>fin_stdout = Some ''hi'', fin_stderr = Some [], fin_error = None,
      fin_exitCode = Some 0, fin_timedOut = Some False, fin_success = Some True\<rparr>"

definition echoHiHostRequest :: ExecHostRequest where
  "echoHiHostRequest =
     \<lparr>rq_command = [''/bin/echo'', ''hi''], rq_rawCommand = None, rq_cwd = None,
      rq_env = None, rq_timeoutMs = None, rq_needsScreenRecording = None, rq_agentId = None,
      rq_sessionKey = Some ''node'', rq_approvalDecision = None\<rparr>"

text \<open>
  A wrapped command whose analysis returns a single segment without any argv, on Windows
  under the allowlist policy.
\<close>

definition emptySegmentEval :: ShellAllowlistEval where
  "emptySegmentEval =
     \<lparr>sh_analysisOk = True, sh_allowlistMatches = [], sh_allowlistSatisfied = True,
      sh_segments = [\<lparr>argv = [], resolution = None\<rparr>]\<rparr>"

definition emptySegmentHost :: "(ExecAllowlistEntry list) opts" where
  "emptySegmentHost =
     sampleHost ''win32'' ''allowlist'' ''untrusted'' [] emptySegmentEval noAnalysis
       noExecEval None"

definition redirectOnly :: SystemRunParams where
  "redirectOnly = request [''cmd.exe'', ''/c'', ''>'', ''out.txt'']"

definition redirectOnlyCommand :: ResolvedCommand where
  "redirectOnlyCommand =
     \<lparr>rc_argv = [''cmd.exe'', ''/c'', ''>'', ''out.txt''], rc_rawCommand = None,
      rc_shellCommand = Some ''> out.txt'', rc_cmdText = ''> out.txt''\<rparr>"

text \<open>The events, replies and results that the concrete requests produce.\<close>

definition deniedPayload :: "string \<Rightarrow> string \<Rightarrow> ExecEventPayload" where
  "deniedPayload cmdText reason =
     \<lparr>ev_sessionKey = ''node'', ev_runId = ''approval-1'', ev_host = ''node'',
      ev_command = Some cmdText, ev_exitCode = None, ev_timedOut = None, ev_success = None,
      ev_output = None, ev_reason = Some reason\<rparr>"

definition repliedHi :: effect where
  "repliedHi =
     SendInvokeResult
       \<lparr>ok = True,
        payloadJSON = Some (RunResultJSON (Some 0) False True ''hi'' [] None),
        err = None\<rparr>"

text \<open>The approval record and the client of the test of the approval binding.\<close>

definition approvalFor :: "string \<Rightarrow> ExecApprovalRecord" where
  "approvalFor cmdText =
     \<lparr>ap_id = ''approval-1'',
      ap_request = \<lparr>ar_host = ''node'', ar_command = cmdText, ar_cwd = None,
                     ar_agentId = None, ar_sessionKey = None\<rparr>,
      ap_createdAtMs = 0, ap_expiresAtMs = 61000, ap_requestedByConnId = Some ''conn-1'',
      ap_resolvedAtMs = Some 500, ap_decision = ''allow-once'',
      ap_resolvedBy = Some ''operator''\<rparr>"

definition snapshotOf :: "ExecApprovalRecord \<Rightarrow> string \<Rightarrow> ExecApprovalRecord option" where
  "snapshotOf r i = Some r"

definition operatorClient :: GatewayClient where
  "operatorClient = \<lparr>connId = ''conn-1'', scopes = [''operator.write'', ''operator.approvals'']\<rparr>"

definition wrappedEcho :: SystemRunParams where
  "wrappedEcho =
     (request [''cmd.exe'', ''/d'', ''/s'', ''/c'', ''echo'', ''SAFE&&whoami''])
       \<lparr>rawCommand := Some ''echo SAFE&&whoami'', approved := Some True,
        approvalDecision := Some ''allow-once''\<rparr>"

section \<open>Notions used in the statements\<close>

text \<open>The detail code of a failed normalization.\<close>

definition failureCode :: "CommandFailure + 'a \<Rightarrow> string option" where
  "failureCode res = (case res of Inl f \<Rightarrow> cf_code f | Inr _ \<Rightarrow> None)"

text \<open>
  The reason and the message of the denial that a request asking for screen recording
  meets on the local path: those of the first of the four checks of lines 459, 490, 519
  and 555 that refuses it.
\<close>

definition refusalOf :: "'f opts \<Rightarrow> SystemRunParams \<Rightarrow> ResolvedCommand \<Rightarrow> string \<times> string" where
  "refusalOf opts params cmd =
     (let security = agent_security (approvalsOf opts params);
          a = analysisOf opts params cmd
      in if security = ''deny'' then (''security=deny'', ''SYSTEM_RUN_DISABLED: security=deny'')
         else if requiresExecApproval opts (agent_ask (approvalsOf opts params)) security
                   (analysisOk a) (allowlistSatisfied a) \<and> \<not> approvedByAsk params
         then (''approval-required'', ''SYSTEM_RUN_DENIED: approval required'')
         else if security = ''allowlist'' \<and> (\<not> analysisOk a \<or> \<not> allowlistSatisfied a)
                   \<and> \<not> approvedByAsk params
         then (''allowlist-miss'', ''SYSTEM_RUN_DENIED: allowlist miss'')
         else (''permission:screenRecording'', ''PERMISSION_MISSING: screenRecording''))"

section \<open>Facts about traces\<close>

lemma addEntries_trace [simp]:
  "filter isDenied (fst (addEntries opts aid ss f)) = []"
  "filter isFinished (fst (addEntries opts aid ss f)) = []"
  "filter isExecEvent (fst (addEntries opts aid ss f)) = []"
  "filter isRunCommand (fst (addEntries opts aid ss f)) = []"
  "replies (fst (addEntries opts aid ss f)) = []"
  by (induction ss arbitrary: f)
     (auto simp: Let_def split_beta replies_def List.map_filter_simps)

lemma recordUses_trace [simp]:
  "filter isDenied (fst (recordUses opts aid ct rp seen ms f)) = []"
  "filter isFinished (fst (recordUses opts aid ct rp seen ms f)) = []"
  "filter isExecEvent (fst (recordUses opts aid ct rp seen ms f)) = []"
  "filter isRunCommand (fst (recordUses opts aid ct rp seen ms f)) = []"
  "filter isAddEntry (fst (recordUses opts aid ct rp seen ms f)) = []"
  "replies (fst (recordUses opts aid ct rp seen ms f)) = []"
  by (induction ms arbitrary: f seen)
     (auto simp: Let_def split_beta replies_def List.map_filter_simps)

lemma replies_Nil [simp]: "replies [] = []"
  by (simp add: replies_def List.map_filter_simps)

lemma replies_Cons [simp]:
  "replies (e # t) = (case replyOf e of None \<Rightarrow> replies t | Some r \<Rightarrow> r # replies t)"
  by (cases "replyOf e") (simp_all add: replies_def List.map_filter_simps)

lemma replies_append [simp]: "replies (s @ t) = replies s @ replies t"
  by (simp add: replies_def List.map_filter_def)

lemma denial_trace [simp]:
  "filter isDenied (denial opts params cmd r m) = [deniedEvent opts params cmd r]"
  "filter isFinished (denial opts params cmd r m) = []"
  "filter isExecEvent (denial opts params cmd r m) = [deniedEvent opts params cmd r]"
  "filter isRunCommand (denial opts params cmd r m) = []"
  "filter isStoreCall (denial opts params cmd r m) = []"
  "filter isAddEntry (denial opts params cmd r m) = []"
  "replies (denial opts params cmd r m) =
     [\<lparr>ok = False, payloadJSON = None,
       err = Some \<lparr>code = Some ''UNAVAILABLE'', message = Some m\<rparr>\<rparr>]"
  by (simp_all add: denial_def deniedEvent_def unavailable_def)

lemma runAndReply_trace [simp]:
  "filter isDenied (runAndReply opts params cmd) = []"
  "length (filter isFinished (runAndReply opts params cmd)) = 1"
  "length (filter isExecEvent (runAndReply opts params cmd)) = 1"
  "filter isStoreCall (runAndReply opts params cmd) = []"
  "filter isAddEntry (runAndReply opts params cmd) = []"
  "map errCode (replies (runAndReply opts params cmd)) = [None]"
  "map ok (replies (runAndReply opts params cmd)) = [True]"
  by (simp_all add: runAndReply_def Let_def errCode_def)

lemma invalidRequest_trace [simp]:
  "filter isExecEvent (invalidRequest m) = []"
  "filter isDenied (invalidRequest m) = []"
  "filter isFinished (invalidRequest m) = []"
  "filter isStoreCall (invalidRequest m) = []"
  "filter isAddEntry (invalidRequest m) = []"
  "filter isRunCommand (invalidRequest m) = []"
  "map errCode (replies (invalidRequest m)) = [Some ''INVALID_REQUEST'']"
  by (simp_all add: invalidRequest_def errCode_def)

lemma approvedByAsk_of_decision:
  "normalizedDecision params = Some d \<Longrightarrow> approvedByAsk params"
  by (simp add: approvedByAsk_def)

section \<open>The paths of the handler\<close>

lemma handle_refused:
  "resolveSystemRunCommand opts (Some (command params)) (rawCommand params) = Inl failure \<Longrightarrow>
   handleSystemRunInvoke opts params = (invalidRequest (cf_message failure), None)"
  by (simp add: handleSystemRunInvoke_def)

lemma handle_empty:
  "resolveSystemRunCommand opts (Some (command params)) (rawCommand params) = Inr cmd \<Longrightarrow>
   rc_argv cmd = [] \<Longrightarrow>
   handleSystemRunInvoke opts params = (invalidRequest ''command required'', None)"
  by (simp add: handleSystemRunInvoke_def)

lemma macPath_None:
  "decidedLocally opts params cmd \<Longrightarrow> platform opts = ''darwin'' \<Longrightarrow>
   macPath opts params cmd = ([RunViaMacAppExecHost (execRequestOf opts params cmd)], None)"
  by (simp add: decidedLocally_def macPath_def Let_def)

lemma handle_local:
  assumes "resolveSystemRunCommand opts (Some (command params)) (rawCommand params) = Inr cmd"
    and "rc_argv cmd \<noteq> []" and "decidedLocally opts params cmd"
  shows "handleSystemRunInvoke opts params =
    ((if platform opts = ''darwin'' then [RunViaMacAppExecHost (execRequestOf opts params cmd)]
      else []) @ fst (localPath opts params cmd),
     Some (snd (localPath opts params cmd)))"
  using assms by (simp add: handleSystemRunInvoke_def macPath_None split_beta)

lemma handle_host:
  assumes "resolveSystemRunCommand opts (Some (command params)) (rawCommand params) = Inr cmd"
    and "rc_argv cmd \<noteq> []" and "\<not> decidedLocally opts params cmd"
  shows "\<exists>t. macPath opts params cmd = ([RunViaMacAppExecHost (execRequestOf opts params cmd)], Some t)
     \<and> handleSystemRunInvoke opts params =
        (RunViaMacAppExecHost (execRequestOf opts params cmd) # t,
         Some (approvalsFile (approvalsOf opts params)))"
  using assms
  by (auto simp: handleSystemRunInvoke_def decidedLocally_def macPath_def Let_def
      split: option.splits ExecHostResponse.splits)

lemma macPath_one_event:
  "macPath opts params cmd = (c, Some t) \<Longrightarrow>
   length (filter isDenied t) + length (filter isFinished t) = 1
   \<and> length (filter isExecEvent t) = 1
   \<and> filter isStoreCall t = [] \<and> filter isRunCommand t = []
   \<and> (\<forall>r \<in> set (replies t). errCode r \<noteq> Some ''INVALID_REQUEST'')"
  by (auto simp: macPath_def Let_def errCode_def split: option.splits ExecHostResponse.splits if_splits)







text \<open>
  The definitions that evaluate the handler on the concrete hosts and requests.
\<close>

lemmas handler_defs =
  handleSystemRunInvoke_def localPath_def macPath_def analysisOf_def evaluateCommand_def
  approvalsOf_def agentIdOf_def agentExecOf_def sessionKeyOf_def runIdOf_def envOf_def
  safeBinsOf_def binsOf_def cmdInvocation_def selectExecArgv_def runAndReply_def denial_def
  deniedEvent_def unavailable_def invalidRequest_def normalizedDecision_def approvedByAsk_def
  markTruncated_def finishedOf_def trimmedOrNone_def trim_def isWhiteSpace_def truthy_def
  orElse_def firstSegmentArgv_def segmentPath_def firstSegmentPath_def execRequestOf_def
  accepted_def decidedLocally_def errCode_def errMessage_def Let_def

lemmas normalizer_defs =
  resolveSystemRunCommand_spec_def validateSystemRunCommandConsistency_def
  extractShellCommandFromArgv_def isPosixShell_def isCmdExe_def isCommandFlag_def basename_def
  toLowerCase_def lowerChar_def joinWith_def formatExecCommand_def formatToken_def
  shellSpecial_def escapeChar_def

lemmas host_defs =
  sampleHost_def request_def isCmdExeInvocation_spec_def requiresExecApproval_spec_def
  addAllowlistEntry_spec_def recordAllowlistUse_spec_def isAbsolutePath_def noShellEval_def
  noAnalysis_def noExecEval_def entryFor_def segmentFor_def whoamiPath_def whoamiShellEval_def
  wrappedWhoamiHost_def wrappedWhoami_def wrappedWhoamiCommand_def cmdPath_def
  directCmdHost_def directCmd_def directCmdCommand_def echoHost_def echoHi_def
  echoHiCommand_def echoHiScreen_def echoHiScreenAlways_def echoHiApproved_def
  usedEchoEntry_def macHost_def printedHi_def echoHiHostRequest_def emptySegmentEval_def
  emptySegmentHost_def redirectOnly_def redirectOnlyCommand_def deniedPayload_def
  repliedHi_def

section \<open>The shell wrappers\<close>

lemma firstIndex_append:
  "list_all (\<lambda>x. \<not> P x) ys \<Longrightarrow> P k \<Longrightarrow> firstIndex P (ys @ k # zs) = Some (length ys)"
  by (induction ys) simp_all

lemma firstIndex_Some:
  "firstIndex P xs = Some j \<Longrightarrow>
   \<exists>ys k zs. xs = ys @ k # zs \<and> length ys = j \<and> list_all (\<lambda>x. \<not> P x) ys \<and> P k"
proof (induction xs arbitrary: j)
  case Nil
  then show ?case by simp
next
  case (Cons x xs)
  show ?case
  proof (cases "P x")
    case True
    with Cons.prems have "j = 0" by simp
    with True show ?thesis by (intro exI [of _ "[]"]) simp
  next
    case False
    with Cons.prems obtain i where i: "firstIndex P xs = Some i" "j = Suc i"
      by auto
    from Cons.IH [OF i(1)] obtain ys k zs where
      "xs = ys @ k # zs" "length ys = i" "list_all (\<lambda>x. \<not> P x) ys" "P k"
      by blast
    with False i(2) show ?thesis
      by (intro exI [of _ "x # ys"] exI [of _ k] exI [of _ zs]) simp
  qed
qed

lemma cmd_is_no_posix_shell: "isCmdExe c \<Longrightarrow> \<not> isPosixShell c"
  by (auto simp: isCmdExe_def isPosixShell_def toLowerCase_def lowerChar_def)

lemma extract_cmd:
  assumes "isCmdExe c" and "list_all (\<lambda>f. \<not> isCommandFlag f) flags" and "isCommandFlag k"
    and "ts \<noteq> []"
  shows "extractShellCommandFromArgv (c # flags @ k # ts) = Some (joinWith '' '' ts)"
  using assms cmd_is_no_posix_shell [OF assms(1)]
  by (simp add: extractShellCommandFromArgv_def firstIndex_append)

lemma extract_posix:
  assumes "isPosixShell s" and "f = ''-c'' \<or> f = ''-lc''"
  shows "extractShellCommandFromArgv (s # f # x # rest) = Some x"
  using assms by (auto simp: extractShellCommandFromArgv_def)

lemma extract_Some:
  assumes "extractShellCommandFromArgv av = Some y"
  shows "(\<exists>c flags k ts. av = c # flags @ k # ts \<and> isCmdExe c
            \<and> list_all (\<lambda>f. \<not> isCommandFlag f) flags \<and> isCommandFlag k \<and> ts \<noteq> [])
       \<or> (\<exists>s f x rest. av = s # f # x # rest \<and> isPosixShell s \<and> (f = ''-c'' \<or> f = ''-lc''))"
proof (cases av)
  case Nil
  with assms show ?thesis
    by (simp add: extractShellCommandFromArgv_def)
next
  case (Cons a0 args)
  show ?thesis
  proof (cases "isPosixShell a0 \<and> length av \<ge> 3 \<and> av ! 1 \<in> {''-c'', ''-lc''}")
    case True
    then obtain f x rest where "args = f # x # rest"
      using Cons by (cases args; cases "tl args") auto
    with True Cons show ?thesis
      by auto
  next
    case False
    with assms Cons have c: "isCmdExe a0"
      by (auto simp: extractShellCommandFromArgv_def split: if_splits)
    with assms Cons False obtain j where j: "firstIndex isCommandFlag args = Some j"
      and len: "length av > Suc j + 1"
      by (auto simp: extractShellCommandFromArgv_def split: if_splits option.splits)
    from firstIndex_Some [OF j] obtain flags k ts where
      s: "args = flags @ k # ts" "length flags = j"
        "list_all (\<lambda>f. \<not> isCommandFlag f) flags" "isCommandFlag k"
      by blast
    with len Cons have "ts \<noteq> []"
      by auto
    with c s Cons show ?thesis
      by blast
  qed
qed

text \<open>
  Claim C1. For an argv that is a program whose basename is \<^verbatim>\<open>cmd.exe\<close> or
  \<^verbatim>\<open>cmd\<close> in any case, then flags none of which is \<^verbatim>\<open>/c\<close> or \<^verbatim>\<open>/k\<close>, then
  \<^verbatim>\<open>/c\<close> or \<^verbatim>\<open>/k\<close>, then at least one token, \<^verbatim>\<open>extractShellCommandFromArgv\<close>
  returns the tokens after the flag joined by single spaces. For \<^verbatim>\<open>sh\<close>, \<^verbatim>\<open>bash\<close>,
  \<^verbatim>\<open>dash\<close> or \<^verbatim>\<open>zsh\<close> followed by \<^verbatim>\<open>-c\<close> or \<^verbatim>\<open>-lc\<close> and a command it returns
  the command, the third entry. For an argv of neither form it returns null.
\<close>

theorem extract_injection_closure:
  "(isCmdExe c \<and> list_all (\<lambda>f. \<not> isCommandFlag f) flags \<and> isCommandFlag k \<and> ts \<noteq> [] \<longrightarrow>
      extractShellCommandFromArgv (c # flags @ k # ts) = Some (joinWith '' '' ts))
   \<and> (isPosixShell s \<and> (f = ''-c'' \<or> f = ''-lc'') \<longrightarrow>
      extractShellCommandFromArgv (s # f # x # rest) = Some x)
   \<and> (\<not> (\<exists>c flags k ts. av = c # flags @ k # ts \<and> isCmdExe c
            \<and> list_all (\<lambda>f. \<not> isCommandFlag f) flags \<and> isCommandFlag k \<and> ts \<noteq> [])
      \<and> \<not> (\<exists>s f x rest. av = s # f # x # rest \<and> isPosixShell s
            \<and> (f = ''-c'' \<or> f = ''-lc'')) \<longrightarrow>
      extractShellCommandFromArgv av = None)"
  using extract_cmd [of c flags k ts] extract_posix [of s f x rest] extract_Some [of av]
  by (cases "extractShellCommandFromArgv av") blast+

text \<open>
  The three cases at the argv of the tests: the \<^verbatim>\<open>cmd.exe\<close> wrapper with a trailing
  argument, the \<^verbatim>\<open>sh -lc\<close> wrapper, and a direct command.
\<close>

theorem extract_injection_closure_witness:
  "isCmdExe ''cmd.exe''
   \<and> list_all (\<lambda>f. \<not> isCommandFlag f) [''/d'', ''/s'']
   \<and> isCommandFlag ''/c''
   \<and> extractShellCommandFromArgv ([''cmd.exe''] @ [''/d'', ''/s''] @ [''/c'', ''echo'', ''SAFE&&whoami''])
       = Some ''echo SAFE&&whoami''
   \<and> isPosixShell ''/bin/sh''
   \<and> extractShellCommandFromArgv [''/bin/sh'', ''-lc'', ''echo hi''] = Some ''echo hi''
   \<and> extractShellCommandFromArgv [''uname'', ''-a''] = None"
proof -
  have a: "isCmdExe ''cmd.exe''" "list_all (\<lambda>f. \<not> isCommandFlag f) [''/d'', ''/s'']"
    "isCommandFlag ''/c''" "isPosixShell ''/bin/sh''"
    by (simp_all add: normalizer_defs)
  have n: "\<not> isCmdExe ''uname''" "\<not> isPosixShell ''uname''"
    by (simp_all add: normalizer_defs)
  have b: "\<not> (\<exists>c flags k ts. [''uname'', ''-a''] = c # flags @ k # ts \<and> isCmdExe c
            \<and> list_all (\<lambda>f. \<not> isCommandFlag f) flags \<and> isCommandFlag k \<and> ts \<noteq> [])"
    "\<not> (\<exists>s f x rest. [''uname'', ''-a''] = s # f # x # rest \<and> isPosixShell s
            \<and> (f = ''-c'' \<or> f = ''-lc''))"
    using n by auto
  from a b show ?thesis
    using extract_injection_closure [of "''cmd.exe''" "[''/d'', ''/s'']" "''/c''"
        "[''echo'', ''SAFE&&whoami'']" "''/bin/sh''" "''-lc''" "''echo hi''" "[]"
        "[''uname'', ''-a'']"]
    by (simp add: joinWith_def)
qed

section \<open>Normalization\<close>

lemma extract_Nil [simp]: "extractShellCommandFromArgv [] = None"
  by (simp add: extractShellCommandFromArgv_def)

text \<open>The first test of \<^verbatim>\<open>system-run-command.test.ts\<close>: an argument with a space is quoted.\<close>

lemma format_quotes_spaces:
  "formatExecCommand [''echo'', ''hi there''] = ''echo '' @ [CHR 0x22] @ ''hi there'' @ [CHR 0x22]"
  by (simp add: normalizer_defs)

text \<open>
  Claim C2. \<^verbatim>\<open>resolveSystemRunCommand\<close> succeeds if and only if the raw command is
  absent, or it is the rendering \<^verbatim>\<open>formatExecCommand\<close> of a present, non-empty argv, or
  argv is a shell wrapper and the raw command is the extracted shell command. A raw command
  without a command fails with the code \<^verbatim>\<open>MISSING_COMMAND\<close>; a raw command that matches
  neither the rendering nor the shell command of a non-empty argv fails with the code
  \<^verbatim>\<open>RAW_COMMAND_MISMATCH\<close>, in \<^verbatim>\<open>validateSystemRunCommandConsistency\<close> too.
\<close>

theorem normalization_consistency:
  "(\<not> isl (resolveSystemRunCommand_spec cmd raw) \<longleftrightarrow>
      raw = None
      \<or> (\<exists>av. cmd = Some av \<and> av \<noteq> [] \<and> raw = Some (formatExecCommand av))
      \<or> (\<exists>av s. cmd = Some av \<and> extractShellCommandFromArgv av = Some s \<and> raw = Some s))
   \<and> (raw \<noteq> None \<and> (cmd = None \<or> cmd = Some []) \<longrightarrow>
      failureCode (resolveSystemRunCommand_spec cmd raw) = Some ''MISSING_COMMAND'')
   \<and> (cmd = Some av \<and> av \<noteq> [] \<and> raw = Some r \<and> r \<noteq> formatExecCommand av
        \<and> extractShellCommandFromArgv av \<noteq> Some r \<longrightarrow>
      failureCode (resolveSystemRunCommand_spec cmd raw) = Some ''RAW_COMMAND_MISMATCH''
      \<and> failureCode (validateSystemRunCommandConsistency av raw) = Some ''RAW_COMMAND_MISMATCH'')"
proof -
  have ok: "\<not> isl (resolveSystemRunCommand_spec cmd raw) \<longleftrightarrow>
      raw = None
      \<or> (\<exists>av. cmd = Some av \<and> av \<noteq> [] \<and> raw = Some (formatExecCommand av))
      \<or> (\<exists>av s. cmd = Some av \<and> extractShellCommandFromArgv av = Some s \<and> raw = Some s)"
  proof (cases raw)
    case None
    then show ?thesis
      by (simp add: resolveSystemRunCommand_spec_def validateSystemRunCommandConsistency_def
          Let_def)
  next
    case (Some r)
    show ?thesis
    proof (cases cmd)
      case None
      with Some show ?thesis
        by (simp add: resolveSystemRunCommand_spec_def Let_def)
    next
      case (Some av)
      with \<open>raw = Some r\<close> show ?thesis
        by (cases "av = []")
           (auto simp: resolveSystemRunCommand_spec_def
              validateSystemRunCommandConsistency_def Let_def)
    qed
  qed
  have missing: "failureCode (resolveSystemRunCommand_spec cmd raw) = Some ''MISSING_COMMAND''"
    if "raw \<noteq> None" "cmd = None \<or> cmd = Some []"
    using that by (auto simp: resolveSystemRunCommand_spec_def failureCode_def Let_def)
  have mismatch: "failureCode (resolveSystemRunCommand_spec cmd raw) = Some ''RAW_COMMAND_MISMATCH''
      \<and> failureCode (validateSystemRunCommandConsistency av raw) = Some ''RAW_COMMAND_MISMATCH''"
    if "cmd = Some av" "av \<noteq> []" "raw = Some r" "r \<noteq> formatExecCommand av"
      "extractShellCommandFromArgv av \<noteq> Some r"
    using that
    by (auto simp: resolveSystemRunCommand_spec_def validateSystemRunCommandConsistency_def
        failureCode_def Let_def)
  from ok missing mismatch show ?thesis
    by blast
qed

text \<open>
  The cases of the tests: a direct argv with its rendering, the \<^verbatim>\<open>sh -lc\<close> wrapper with
  its command, a raw command without a command, a raw command that does not match, and the
  \<^verbatim>\<open>cmd.exe\<close> wrapper with a raw command that leaves the trailing argument out.
\<close>

theorem normalization_consistency_witness:
  "\<not> isl (resolveSystemRunCommand_spec (Some [''echo'', ''hi'']) (Some ''echo hi''))
   \<and> ''echo hi'' = formatExecCommand [''echo'', ''hi'']
   \<and> \<not> isl (resolveSystemRunCommand_spec (Some [''/bin/sh'', ''-lc'', ''echo hi''])
          (Some ''echo hi''))
   \<and> extractShellCommandFromArgv [''/bin/sh'', ''-lc'', ''echo hi''] = Some ''echo hi''
   \<and> failureCode (resolveSystemRunCommand_spec None (Some ''echo hi'')) =
       Some ''MISSING_COMMAND''
   \<and> ''echo hi'' \<noteq> formatExecCommand [''uname'', ''-a'']
   \<and> extractShellCommandFromArgv [''uname'', ''-a''] \<noteq> Some ''echo hi''
   \<and> failureCode (resolveSystemRunCommand_spec (Some [''uname'', ''-a'']) (Some ''echo hi'')) =
       Some ''RAW_COMMAND_MISMATCH''
   \<and> isl (resolveSystemRunCommand_spec
         (Some [''cmd.exe'', ''/d'', ''/s'', ''/c'', ''echo'', ''SAFE&&whoami''])
         (Some ''echo''))"
proof -
  have a: "''echo hi'' = formatExecCommand [''echo'', ''hi'']"
    "extractShellCommandFromArgv [''/bin/sh'', ''-lc'', ''echo hi''] = Some ''echo hi''"
    "''echo hi'' \<noteq> formatExecCommand [''uname'', ''-a'']"
    "extractShellCommandFromArgv [''uname'', ''-a''] \<noteq> Some ''echo hi''"
    by (simp_all add: normalizer_defs)
  have b: "''echo'' \<noteq> formatExecCommand
        [''cmd.exe'', ''/d'', ''/s'', ''/c'', ''echo'', ''SAFE&&whoami'']"
    "extractShellCommandFromArgv [''cmd.exe'', ''/d'', ''/s'', ''/c'', ''echo'', ''SAFE&&whoami'']
       \<noteq> Some ''echo''"
    by (simp_all add: normalizer_defs)
  have c: "isl x" if "failureCode x = Some y" for x :: "CommandFailure + ResolvedCommand" and y
    using that by (cases x) (simp_all add: failureCode_def)
  from a show ?thesis
    using normalization_consistency [of "Some [''echo'', ''hi'']" "Some ''echo hi''"]
      normalization_consistency [of "Some [''/bin/sh'', ''-lc'', ''echo hi'']" "Some ''echo hi''"]
      normalization_consistency [of None "Some ''echo hi''"]
      normalization_consistency [of "Some [''uname'', ''-a'']" "Some ''echo hi''"
        "[''uname'', ''-a'']" "''echo hi''"]
      normalization_consistency
        [of "Some [''cmd.exe'', ''/d'', ''/s'', ''/c'', ''echo'', ''SAFE&&whoami'']" "Some ''echo''"
          "[''cmd.exe'', ''/d'', ''/s'', ''/c'', ''echo'', ''SAFE&&whoami'']" "''echo''"] b c
    by auto
qed

section \<open>Approval binding\<close>

text \<open>
  Claim C3. \<^verbatim>\<open>sanitizeSystemRunParamsForForwarding\<close> returns parameters only if the
  incoming command passes the consistency check, the approval record found under the run id
  of the request has that id, is approved and the client holds the required scopes, and the
  command text of the request is the command text of the record; the parameters returned
  are the incoming ones with \<^verbatim>\<open>approved\<close> set and the decision of the record. For the
  consistent request \<^verbatim>\<open>cmd.exe /d /s /c echo SAFE&&whoami\<close>, whose command text is
  \<^verbatim>\<open>echo SAFE&&whoami\<close>, and a record approved for \<^verbatim>\<open>echo\<close>, it fails.
\<close>

theorem approval_binding:
  "(sanitizeSystemRunParamsForForwarding required getSnapshot client nowMs p = Inr q \<longrightarrow>
      (\<exists>cmd r.
          resolveSystemRunCommand_spec (Some (command p)) (rawCommand p) = Inr cmd
          \<and> Option.bind (runId p) getSnapshot = Some r
          \<and> Some (ap_id r) = runId p
          \<and> isApproval (ap_decision r)
          \<and> set required \<subseteq> set (scopes client)
          \<and> rc_cmdText cmd = ar_command (ap_request r)
          \<and> q = p\<lparr>approved := Some True, approvalDecision := Some (ap_decision r)\<rparr>))
   \<and> isl (sanitizeSystemRunParamsForForwarding [''operator.approvals'']
            (snapshotOf (approvalFor ''echo'')) operatorClient 1000 wrappedEcho)
   \<and> map_sum cf_code rc_cmdText
        (resolveSystemRunCommand_spec (Some (command wrappedEcho)) (rawCommand wrappedEcho))
       = Inr ''echo SAFE&&whoami''"
proof -
  have bind: "\<exists>cmd r.
          resolveSystemRunCommand_spec (Some (command p)) (rawCommand p) = Inr cmd
          \<and> Option.bind (runId p) getSnapshot = Some r
          \<and> Some (ap_id r) = runId p
          \<and> isApproval (ap_decision r)
          \<and> set required \<subseteq> set (scopes client)
          \<and> rc_cmdText cmd = ar_command (ap_request r)
          \<and> q = p\<lparr>approved := Some True, approvalDecision := Some (ap_decision r)\<rparr>"
    if "sanitizeSystemRunParamsForForwarding required getSnapshot client nowMs p = Inr q"
    using that
    by (auto simp: sanitizeSystemRunParamsForForwarding_def list_all_iff
        split: sum.splits option.splits if_splits)
  have differ: "isl (sanitizeSystemRunParamsForForwarding [''operator.approvals'']
            (snapshotOf (approvalFor ''echo'')) operatorClient 1000 wrappedEcho)"
    "map_sum cf_code rc_cmdText
        (resolveSystemRunCommand_spec (Some (command wrappedEcho)) (rawCommand wrappedEcho))
       = Inr ''echo SAFE&&whoami''"
    by (simp_all add: sanitizeSystemRunParamsForForwarding_def normalizer_defs request_def
        wrappedEcho_def snapshotOf_def approvalFor_def operatorClient_def isApproval_def Let_def)
  from bind differ show ?thesis
    by blast
qed

text \<open>
  The accepting case of the test: the same request against a record approved for
  \<^verbatim>\<open>echo SAFE&&whoami\<close>.
\<close>

theorem approval_binding_witness:
  "sanitizeSystemRunParamsForForwarding [''operator.approvals'']
       (snapshotOf (approvalFor ''echo SAFE&&whoami'')) operatorClient 1000 wrappedEcho
     = Inr (wrappedEcho\<lparr>approved := Some True, approvalDecision := Some ''allow-once''\<rparr>)
   \<and> map_sum cf_code rc_cmdText
        (resolveSystemRunCommand_spec (Some (command wrappedEcho)) (rawCommand wrappedEcho))
       = Inr (ar_command (ap_request (approvalFor ''echo SAFE&&whoami'')))
   \<and> runId wrappedEcho = Some (ap_id (approvalFor ''echo SAFE&&whoami''))"
proof -
  have s: "sanitizeSystemRunParamsForForwarding [''operator.approvals'']
       (snapshotOf (approvalFor ''echo SAFE&&whoami'')) operatorClient 1000 wrappedEcho
     = Inr (wrappedEcho\<lparr>approved := Some True, approvalDecision := Some ''allow-once''\<rparr>)"
    by (simp add: sanitizeSystemRunParamsForForwarding_def normalizer_defs request_def
        wrappedEcho_def snapshotOf_def approvalFor_def operatorClient_def isApproval_def Let_def)
  from approval_binding [of "[''operator.approvals'']"
      "snapshotOf (approvalFor ''echo SAFE&&whoami'')" operatorClient 1000 wrappedEcho
      "wrappedEcho\<lparr>approved := Some True, approvalDecision := Some ''allow-once''\<rparr>"] s
  show ?thesis
    by (auto simp: snapshotOf_def wrappedEcho_def request_def)
qed

section \<open>Completion events\<close>




section \<open>The security policy deny\<close>

lemma localPath_deny:
  "agent_security (approvalsOf opts params) = ''deny'' \<Longrightarrow>
   localPath opts params cmd =
     (denial opts params cmd ''security=deny'' ''SYSTEM_RUN_DISABLED: security=deny'',
      approvalsFile (approvalsOf opts params))"
  by (simp add: localPath_def Let_def)

text \<open>
  Claim C8, as amended. For a request that passes normalization under the security
  policy \<^verbatim>\<open>deny\<close>, \<^verbatim>\<open>runCommand\<close> is never called. When the handler decides by
  itself (the platform is not macOS, or the exec host of the companion app gave no
  response and the fallback applies), it emits \<^verbatim>\<open>exec.denied\<close> with the reason
  \<^verbatim>\<open>security=deny\<close>, replies \<^verbatim>\<open>UNAVAILABLE\<close> and leaves the approvals file as it
  was; on macOS the call to the exec host comes first.
\<close>

theorem deny_policy_decided_locally:
  assumes "resolveSystemRunCommand opts (Some (command params)) (rawCommand params) = Inr cmd"
    and "rc_argv cmd \<noteq> []"
    and "agent_security (approvalsOf opts params) = ''deny''"
  shows "filter isRunCommand (fst (handleSystemRunInvoke opts params)) = []
    \<and> (decidedLocally opts params cmd \<longrightarrow>
         handleSystemRunInvoke opts params =
           ((if platform opts = ''darwin''
             then [RunViaMacAppExecHost (execRequestOf opts params cmd)] else [])
            @ denial opts params cmd ''security=deny'' ''SYSTEM_RUN_DISABLED: security=deny'',
            Some (approvalsFile (approvalsOf opts params))))"
proof (cases "decidedLocally opts params cmd")
  case True
  from handle_local [OF assms(1,2) True] assms(3) show ?thesis
    by (simp add: localPath_deny)
next
  case False
  from handle_host [OF assms(1,2) False] obtain t where
    m: "macPath opts params cmd =
          ([RunViaMacAppExecHost (execRequestOf opts params cmd)], Some t)"
    and h: "handleSystemRunInvoke opts params =
          (RunViaMacAppExecHost (execRequestOf opts params cmd) # t,
           Some (approvalsFile (approvalsOf opts params)))"
    by blast
  from macPath_one_event [OF m] h False show ?thesis
    by simp
qed

text \<open>
  \<^verbatim>\<open>/bin/echo hi\<close> on Linux under the policy \<^verbatim>\<open>deny\<close>.
\<close>

theorem deny_policy_decided_locally_witness:
  "resolveSystemRunCommand (echoHost ''deny'' ''untrusted'') (Some (command echoHi))
       (rawCommand echoHi) = Inr echoHiCommand
   \<and> rc_argv echoHiCommand \<noteq> []
   \<and> agent_security (approvalsOf (echoHost ''deny'' ''untrusted'') echoHi) = ''deny''
   \<and> decidedLocally (echoHost ''deny'' ''untrusted'') echoHi echoHiCommand
   \<and> handleSystemRunInvoke (echoHost ''deny'' ''untrusted'') echoHi =
       ([SendNodeEvent ''exec.denied'' (deniedPayload ''/bin/echo hi'' ''security=deny''),
         unavailable ''SYSTEM_RUN_DISABLED: security=deny''],
        Some [entryFor ''/bin/echo''])"
proof -
  have r: "resolveSystemRunCommand (echoHost ''deny'' ''untrusted'') (Some (command echoHi))
       (rawCommand echoHi) = Inr echoHiCommand"
    by (simp add: normalizer_defs host_defs)
  have n: "rc_argv echoHiCommand \<noteq> []"
    by (simp add: host_defs)
  have s: "agent_security (approvalsOf (echoHost ''deny'' ''untrusted'') echoHi) = ''deny''"
    by (simp add: handler_defs host_defs)
  have l: "decidedLocally (echoHost ''deny'' ''untrusted'') echoHi echoHiCommand"
    by (simp add: handler_defs host_defs)
  from deny_policy_decided_locally [OF r n s] l
  have "handleSystemRunInvoke (echoHost ''deny'' ''untrusted'') echoHi =
      ((if platform (echoHost ''deny'' ''untrusted'') = ''darwin''
        then [RunViaMacAppExecHost (execRequestOf (echoHost ''deny'' ''untrusted'') echoHi echoHiCommand)] else [])
       @ denial (echoHost ''deny'' ''untrusted'') echoHi echoHiCommand ''security=deny''
            ''SYSTEM_RUN_DISABLED: security=deny'',
       Some (approvalsFile (approvalsOf (echoHost ''deny'' ''untrusted'') echoHi)))"
    by blast
  then have "handleSystemRunInvoke (echoHost ''deny'' ''untrusted'') echoHi =
       ([SendNodeEvent ''exec.denied'' (deniedPayload ''/bin/echo hi'' ''security=deny''),
         unavailable ''SYSTEM_RUN_DISABLED: security=deny''],
        Some [entryFor ''/bin/echo''])"
    by (simp add: handler_defs host_defs)
  with r n s l show ?thesis
    by blast
qed

text \<open>
  Claim C8 as stated fails on macOS: under the policy \<^verbatim>\<open>deny\<close> the request is
  forwarded to the exec host (line 407) before the policy is looked at (line 459); when the
  host runs it, the handler emits \<^verbatim>\<open>exec.finished\<close> and replies with the result.
\<close>

theorem deny_policy_mac_host_counterexample:
  "accepted (macHost ''deny'' (Some (HostOk printedHi))) echoHi
   \<and> agent_security (approvalsOf (macHost ''deny'' (Some (HostOk printedHi))) echoHi) = ''deny''
   \<and> handleSystemRunInvoke (macHost ''deny'' (Some (HostOk printedHi))) echoHi =
       ([RunViaMacAppExecHost echoHiHostRequest,
         SendExecFinishedEvent ''node'' ''approval-1'' ''/bin/echo hi'' printedHi,
         SendInvokeResult
           \<lparr>ok = True, payloadJSON = Some (HostResultJSON printedHi), err = None\<rparr>],
        Some [entryFor ''/bin/echo''])"
  by (simp add: handler_defs normalizer_defs host_defs)

section \<open>The rule for cmd.exe\<close>

text \<open>
  Claim C4, as amended. On Windows under the allowlist policy, \<^verbatim>\<open>analysisOk\<close> and
  \<^verbatim>\<open>allowlistSatisfied\<close> are forced to false when \<^verbatim>\<open>isCmdExeInvocation\<close> holds of
  the invocation that was analysed: the argv of the request when no shell command was
  extracted, the argv of the first segment of the shell command when one was. The approval
  plays no part in the rule. When the rule applies and the request is not approved, the
  handler denies it on the local path, as \<^verbatim>\<open>approval-required\<close> or as
  \<^verbatim>\<open>allowlist-miss\<close>, and leaves the approvals file as it was. In every other case the
  rule changes nothing.
\<close>

theorem cmd_rule_follows_analysed_command:
  "(agent_security (approvalsOf opts params) = ''allowlist'' \<and> platform opts = ''win32''
      \<and> isCmdExeInvocation opts
          (if truthy (rc_shellCommand cmd)
           then firstSegmentArgv (segments (evaluateCommand opts params cmd))
           else rc_argv cmd)
    \<longrightarrow> \<not> analysisOk (analysisOf opts params cmd)
        \<and> \<not> allowlistSatisfied (analysisOf opts params cmd)
        \<and> (\<not> approvedByAsk params \<longrightarrow>
             snd (localPath opts params cmd) = approvalsFile (approvalsOf opts params)
             \<and> (fst (localPath opts params cmd) =
                  denial opts params cmd ''approval-required''
                    ''SYSTEM_RUN_DENIED: approval required''
                \<or> fst (localPath opts params cmd) =
                  denial opts params cmd ''allowlist-miss''
                    ''SYSTEM_RUN_DENIED: allowlist miss'')))
   \<and> (\<not> (agent_security (approvalsOf opts params) = ''allowlist'' \<and> platform opts = ''win32''
          \<and> isCmdExeInvocation opts
              (if truthy (rc_shellCommand cmd)
               then firstSegmentArgv (segments (evaluateCommand opts params cmd))
               else rc_argv cmd))
    \<longrightarrow> analysisOf opts params cmd = evaluateCommand opts params cmd)"
proof -
  have rule: "\<not> analysisOk (analysisOf opts params cmd)
      \<and> \<not> allowlistSatisfied (analysisOf opts params cmd)"
    if "agent_security (approvalsOf opts params) = ''allowlist''" "platform opts = ''win32''"
      "isCmdExeInvocation opts
          (if truthy (rc_shellCommand cmd)
           then firstSegmentArgv (segments (evaluateCommand opts params cmd))
           else rc_argv cmd)"
    using that by (simp add: analysisOf_def cmdInvocation_def Let_def split: if_splits)
  have local: "snd (localPath opts params cmd) = approvalsFile (approvalsOf opts params)
      \<and> (fst (localPath opts params cmd) =
            denial opts params cmd ''approval-required'' ''SYSTEM_RUN_DENIED: approval required''
          \<or> fst (localPath opts params cmd) =
            denial opts params cmd ''allowlist-miss'' ''SYSTEM_RUN_DENIED: allowlist miss'')"
    if "agent_security (approvalsOf opts params) = ''allowlist''"
      "\<not> analysisOk (analysisOf opts params cmd)" "\<not> approvedByAsk params"
    using that by (simp add: localPath_def Let_def approvedByAsk_def)
  have other: "analysisOf opts params cmd = evaluateCommand opts params cmd"
    if "\<not> (agent_security (approvalsOf opts params) = ''allowlist'' \<and> platform opts = ''win32''
          \<and> isCmdExeInvocation opts
              (if truthy (rc_shellCommand cmd)
               then firstSegmentArgv (segments (evaluateCommand opts params cmd))
               else rc_argv cmd))"
    using that by (auto simp: analysisOf_def cmdInvocation_def Let_def)
  from rule local other show ?thesis
    by blast
qed

text \<open>
  The rule applies to \<^verbatim>\<open>cmd.exe /d\<close>, which has no shell command, although
  \<^verbatim>\<open>cmd.exe\<close> is on the allowlist; it does not apply to \<^verbatim>\<open>cmd.exe /c whoami\<close>,
  whose first segment is \<^verbatim>\<open>whoami\<close>.
\<close>

theorem cmd_rule_follows_analysed_command_witness:
  "agent_security (approvalsOf directCmdHost directCmd) = ''allowlist''
   \<and> platform directCmdHost = ''win32''
   \<and> \<not> truthy (rc_shellCommand directCmdCommand)
   \<and> isCmdExeInvocation directCmdHost (rc_argv directCmdCommand)
   \<and> \<not> approvedByAsk directCmd
   \<and> analysisOk (evaluateCommand directCmdHost directCmd directCmdCommand)
   \<and> \<not> analysisOk (analysisOf directCmdHost directCmd directCmdCommand)
   \<and> \<not> allowlistSatisfied (analysisOf directCmdHost directCmd directCmdCommand)
   \<and> fst (localPath directCmdHost directCmd directCmdCommand) =
       [SendNodeEvent ''exec.denied'' (deniedPayload ''cmd.exe /d'' ''approval-required''),
        unavailable ''SYSTEM_RUN_DENIED: approval required'']
   \<and> truthy (rc_shellCommand wrappedWhoamiCommand)
   \<and> \<not> isCmdExeInvocation wrappedWhoamiHost
         (firstSegmentArgv (segments (evaluateCommand wrappedWhoamiHost wrappedWhoami
            wrappedWhoamiCommand)))
   \<and> analysisOf wrappedWhoamiHost wrappedWhoami wrappedWhoamiCommand =
       evaluateCommand wrappedWhoamiHost wrappedWhoami wrappedWhoamiCommand"
proof -
  have a: "agent_security (approvalsOf directCmdHost directCmd) = ''allowlist''"
    "platform directCmdHost = ''win32''"
    "\<not> truthy (rc_shellCommand directCmdCommand)"
    "isCmdExeInvocation directCmdHost (rc_argv directCmdCommand)"
    "\<not> approvedByAsk directCmd"
    "analysisOk (evaluateCommand directCmdHost directCmd directCmdCommand)"
    by (simp_all add: handler_defs host_defs normalizer_defs)
  have b: "truthy (rc_shellCommand wrappedWhoamiCommand)"
    "\<not> isCmdExeInvocation wrappedWhoamiHost
         (firstSegmentArgv (segments (evaluateCommand wrappedWhoamiHost wrappedWhoami
            wrappedWhoamiCommand)))"
    by (simp_all add: handler_defs host_defs normalizer_defs)
  have c: "fst (localPath directCmdHost directCmd directCmdCommand) =
       [SendNodeEvent ''exec.denied'' (deniedPayload ''cmd.exe /d'' ''approval-required''),
        unavailable ''SYSTEM_RUN_DENIED: approval required'']"
    by (simp add: handler_defs host_defs normalizer_defs)
  from a b c show ?thesis
    using cmd_rule_follows_analysed_command [of directCmdHost directCmd directCmdCommand]
      cmd_rule_follows_analysed_command [of wrappedWhoamiHost wrappedWhoami wrappedWhoamiCommand]
    by simp
qed

text \<open>
  Claim C4 as stated fails: for \<^verbatim>\<open>cmd.exe /c whoami\<close> on Windows under the allowlist
  policy, not approved, the outer invocation is \<^verbatim>\<open>cmd.exe\<close>, yet the test of line 382
  looks at the segment \<^verbatim>\<open>whoami\<close>, both flags stay true and the command runs,
  unwrapped, without any ask.
\<close>

theorem cmd_rule_wrapped_counterexample:
  "platform wrappedWhoamiHost = ''win32''
   \<and> agent_security (approvalsOf wrappedWhoamiHost wrappedWhoami) = ''allowlist''
   \<and> isCmdExeInvocation wrappedWhoamiHost (command wrappedWhoami)
   \<and> approved wrappedWhoami = None
   \<and> approvalDecision wrappedWhoami = None
   \<and> resolveSystemRunCommand wrappedWhoamiHost (Some (command wrappedWhoami))
       (rawCommand wrappedWhoami) = Inr wrappedWhoamiCommand
   \<and> analysisOk (analysisOf wrappedWhoamiHost wrappedWhoami wrappedWhoamiCommand)
   \<and> allowlistSatisfied (analysisOf wrappedWhoamiHost wrappedWhoami wrappedWhoamiCommand)
   \<and> fst (handleSystemRunInvoke wrappedWhoamiHost wrappedWhoami) =
       [RecordAllowlistUse None (entryFor whoamiPath) ''whoami'' (Some whoamiPath),
        RunCommand [''whoami''] None None None,
        SendExecFinishedEvent ''node'' ''approval-1'' ''whoami'' printedHi,
        repliedHi]"
  by (simp add: handler_defs normalizer_defs host_defs)

section \<open>The allowlist store\<close>

lemma localPath_early_denial:
  assumes "r \<in> set (replies (fst (localPath opts params cmd)))" and "\<not> ok r"
    and "errMessage r \<noteq> Some ''PERMISSION_MISSING: screenRecording''"
  shows "filter isStoreCall (fst (localPath opts params cmd)) = []
    \<and> snd (localPath opts params cmd) = approvalsFile (approvalsOf opts params)"
proof -
  have d: "normalizedDecision params = Some ''allow-always'' \<Longrightarrow> approvedByAsk params"
    by (rule approvedByAsk_of_decision)
  from assms d show ?thesis
    by (auto simp: localPath_def Let_def split_beta errMessage_def runAndReply_def
        split: if_splits)
qed

text \<open>
  Claim C5, as amended. For every request whose reply is a denial other than the one for
  screen recording (\<^verbatim>\<open>PERMISSION_MISSING: screenRecording\<close>), neither
  \<^verbatim>\<open>addAllowlistEntry\<close> nor \<^verbatim>\<open>recordAllowlistUse\<close> is called and the approvals file
  is left as it was (or was never loaded, for an invalid request).
\<close>

theorem store_unchanged_by_early_denial:
  assumes "r \<in> set (replies (fst (handleSystemRunInvoke opts params)))" and "\<not> ok r"
    and "errMessage r \<noteq> Some ''PERMISSION_MISSING: screenRecording''"
  shows "filter isStoreCall (fst (handleSystemRunInvoke opts params)) = []
    \<and> (snd (handleSystemRunInvoke opts params) = None
       \<or> snd (handleSystemRunInvoke opts params) = Some (approvalsFile (approvalsOf opts params)))"
proof (cases "resolveSystemRunCommand opts (Some (command params)) (rawCommand params)")
  case (Inl failure)
  then show ?thesis
    by (simp add: handle_refused)
next
  case (Inr cmd)
  show ?thesis
  proof (cases "rc_argv cmd = []")
    case True
    with Inr show ?thesis
      by (simp add: handle_empty)
  next
    case False
    show ?thesis
    proof (cases "decidedLocally opts params cmd")
      case True
      note h = handle_local [OF Inr False True]
      from assms(1) h have "r \<in> set (replies (fst (localPath opts params cmd)))"
        by (simp split: if_splits)
      from localPath_early_denial [OF this assms(2,3)] h show ?thesis
        by simp
    next
      case notLocal: False
      from handle_host [OF Inr False notLocal] obtain t where
        m: "macPath opts params cmd =
              ([RunViaMacAppExecHost (execRequestOf opts params cmd)], Some t)"
        and h: "handleSystemRunInvoke opts params =
              (RunViaMacAppExecHost (execRequestOf opts params cmd) # t,
               Some (approvalsFile (approvalsOf opts params)))"
        by blast
      from macPath_one_event [OF m] h show ?thesis
        by simp
    qed
  qed
qed

text \<open>
  \<^verbatim>\<open>/bin/echo hi\<close> with screen recording under \<^verbatim>\<open>ask=always\<close>, not approved: the
  denial is \<^verbatim>\<open>approval-required\<close>.
\<close>

theorem store_unchanged_by_early_denial_witness:
  "\<lparr>ok = False, payloadJSON = None,
     err = Some \<lparr>code = Some ''UNAVAILABLE'',
                 message = Some ''SYSTEM_RUN_DENIED: approval required''\<rparr>\<rparr>
     \<in> set (replies (fst (handleSystemRunInvoke (echoHost ''allowlist'' ''always'') echoHiScreen)))
   \<and> filter isStoreCall
       (fst (handleSystemRunInvoke (echoHost ''allowlist'' ''always'') echoHiScreen)) = []
   \<and> snd (handleSystemRunInvoke (echoHost ''allowlist'' ''always'') echoHiScreen) =
       Some [entryFor ''/bin/echo'']"
proof -
  let ?r = "\<lparr>ok = False, payloadJSON = None,
     err = Some \<lparr>code = Some ''UNAVAILABLE'',
                 message = Some ''SYSTEM_RUN_DENIED: approval required''\<rparr>\<rparr>"
  have a: "?r \<in> set (replies (fst (handleSystemRunInvoke (echoHost ''allowlist'' ''always'')
      echoHiScreen)))"
    by (simp add: handler_defs normalizer_defs host_defs)
  have b: "\<not> ok ?r" "errMessage ?r \<noteq> Some ''PERMISSION_MISSING: screenRecording''"
    by (simp_all add: errMessage_def)
  have c: "approvalsFile (approvalsOf (echoHost ''allowlist'' ''always'') echoHiScreen) =
      [entryFor ''/bin/echo'']"
    "snd (handleSystemRunInvoke (echoHost ''allowlist'' ''always'') echoHiScreen) \<noteq> None"
    by (simp_all add: handler_defs normalizer_defs host_defs)
  from store_unchanged_by_early_denial [OF a b] a c show ?thesis
    by simp
qed

text \<open>
  Claim C5 as stated fails: the check for screen recording (line 555) comes after the
  insertion of entries (lines 508--517) and the recording of uses (lines 538--553). The
  request \<^verbatim>\<open>/bin/echo hi\<close> with screen recording and the decision \<^verbatim>\<open>allow-always\<close>
  is denied, and the store has changed.
\<close>

theorem store_changed_by_late_denial_counterexample:
  "handleSystemRunInvoke (echoHost ''allowlist'' ''untrusted'') echoHiScreenAlways =
     ([AddAllowlistEntry None ''/bin/echo'',
       RecordAllowlistUse None (entryFor ''/bin/echo'') ''/bin/echo hi'' (Some ''/bin/echo''),
       SendNodeEvent ''exec.denied''
         (deniedPayload ''/bin/echo hi'' ''permission:screenRecording''),
       SendInvokeResult
         \<lparr>ok = False, payloadJSON = None,
          err = Some \<lparr>code = Some ''UNAVAILABLE'',
                      message = Some ''PERMISSION_MISSING: screenRecording''\<rparr>\<rparr>],
      Some [usedEchoEntry])
   \<and> approvalsFile (approvalsOf (echoHost ''allowlist'' ''untrusted'') echoHiScreenAlways) =
       [entryFor ''/bin/echo'']
   \<and> [usedEchoEntry] \<noteq> [entryFor ''/bin/echo'']"
  by (simp add: handler_defs normalizer_defs host_defs)

section \<open>Screen recording\<close>

lemma localPath_screen:
  assumes "needsScreenRecording params = Some True"
  shows "filter isRunCommand (fst (localPath opts params cmd)) = []
    \<and> filter isFinished (fst (localPath opts params cmd)) = []
    \<and> filter isDenied (fst (localPath opts params cmd)) =
        [deniedEvent opts params cmd (fst (refusalOf opts params cmd))]
    \<and> replies (fst (localPath opts params cmd)) =
        [\<lparr>ok = False, payloadJSON = None,
          err = Some \<lparr>code = Some ''UNAVAILABLE'',
                      message = Some (snd (refusalOf opts params cmd))\<rparr>\<rparr>]"
  using assms by (auto simp add: localPath_def refusalOf_def Let_def split_beta)

text \<open>
  Claim C6, as amended. A request that asks for screen recording and that the handler
  decides by itself is never run and always denied with the code \<^verbatim>\<open>UNAVAILABLE\<close>. No
  permission is consulted, and the check is the last one: the reason of the denial is
  \<^verbatim>\<open>security=deny\<close>, \<^verbatim>\<open>approval-required\<close> or \<^verbatim>\<open>allowlist-miss\<close> when that check
  refuses the request, in this order, and \<^verbatim>\<open>permission:screenRecording\<close> only when
  none of them does.
\<close>

theorem screen_recording_is_checked_last:
  assumes "resolveSystemRunCommand opts (Some (command params)) (rawCommand params) = Inr cmd"
    and "rc_argv cmd \<noteq> []" and "decidedLocally opts params cmd"
    and "needsScreenRecording params = Some True"
  shows "filter isRunCommand (fst (handleSystemRunInvoke opts params)) = []
    \<and> filter isFinished (fst (handleSystemRunInvoke opts params)) = []
    \<and> filter isDenied (fst (handleSystemRunInvoke opts params)) =
        [deniedEvent opts params cmd (fst (refusalOf opts params cmd))]
    \<and> replies (fst (handleSystemRunInvoke opts params)) =
        [\<lparr>ok = False, payloadJSON = None,
          err = Some \<lparr>code = Some ''UNAVAILABLE'',
                      message = Some (snd (refusalOf opts params cmd))\<rparr>\<rparr>]"
  using handle_local [OF assms(1,2,3)] localPath_screen [OF assms(4), of opts cmd]
  by simp

text \<open>
  \<^verbatim>\<open>/bin/echo hi\<close> with screen recording, on the allowlist, under \<^verbatim>\<open>ask=untrusted\<close>:
  the three earlier checks let it pass.
\<close>

theorem screen_recording_is_checked_last_witness:
  "resolveSystemRunCommand (echoHost ''allowlist'' ''untrusted'') (Some (command echoHiScreen))
       (rawCommand echoHiScreen) = Inr echoHiCommand
   \<and> rc_argv echoHiCommand \<noteq> []
   \<and> decidedLocally (echoHost ''allowlist'' ''untrusted'') echoHiScreen echoHiCommand
   \<and> needsScreenRecording echoHiScreen = Some True
   \<and> refusalOf (echoHost ''allowlist'' ''untrusted'') echoHiScreen echoHiCommand =
       (''permission:screenRecording'', ''PERMISSION_MISSING: screenRecording'')
   \<and> filter isRunCommand
       (fst (handleSystemRunInvoke (echoHost ''allowlist'' ''untrusted'') echoHiScreen)) = []
   \<and> filter isDenied
       (fst (handleSystemRunInvoke (echoHost ''allowlist'' ''untrusted'') echoHiScreen)) =
       [SendNodeEvent ''exec.denied''
          (deniedPayload ''/bin/echo hi'' ''permission:screenRecording'')]"
proof -
  let ?H = "echoHost ''allowlist'' ''untrusted''"
  have r: "resolveSystemRunCommand ?H (Some (command echoHiScreen)) (rawCommand echoHiScreen)
      = Inr echoHiCommand"
    by (simp add: normalizer_defs host_defs)
  have n: "rc_argv echoHiCommand \<noteq> []"
    by (simp add: host_defs)
  have l: "decidedLocally ?H echoHiScreen echoHiCommand"
    by (simp add: handler_defs host_defs)
  have s: "needsScreenRecording echoHiScreen = Some True"
    by (simp add: host_defs)
  have g: "refusalOf ?H echoHiScreen echoHiCommand =
      (''permission:screenRecording'', ''PERMISSION_MISSING: screenRecording'')"
    by (simp add: refusalOf_def handler_defs host_defs)
  have d: "deniedEvent ?H echoHiScreen echoHiCommand ''permission:screenRecording'' =
      SendNodeEvent ''exec.denied''
        (deniedPayload ''/bin/echo hi'' ''permission:screenRecording'')"
    by (simp add: handler_defs host_defs)
  from screen_recording_is_checked_last [OF r n l s] r n l s g d show ?thesis
    by simp
qed

text \<open>
  Claim C6 as stated fails: under \<^verbatim>\<open>ask=always\<close> the same request, not approved, is
  denied as \<^verbatim>\<open>approval-required\<close>.
\<close>

theorem screen_recording_after_ask_counterexample:
  "needsScreenRecording echoHiScreen = Some True
   \<and> accepted (echoHost ''allowlist'' ''always'') echoHiScreen
   \<and> handleSystemRunInvoke (echoHost ''allowlist'' ''always'') echoHiScreen =
       ([SendNodeEvent ''exec.denied'' (deniedPayload ''/bin/echo hi'' ''approval-required''),
         SendInvokeResult
           \<lparr>ok = False, payloadJSON = None,
            err = Some \<lparr>code = Some ''UNAVAILABLE'',
                        message = Some ''SYSTEM_RUN_DENIED: approval required''\<rparr>\<rparr>],
        Some [entryFor ''/bin/echo''])"
  by (simp add: handler_defs normalizer_defs host_defs)

section \<open>The argv that is run\<close>





section \<open>Approved without a decision\<close>

lemma entryKeys_recordAllowlistUse_spec:
  "entryKeys (recordAllowlistUse_spec now store aid m ct rp) = entryKeys store"
  by (induction store) (simp_all add: entryKeys_def recordAllowlistUse_spec_def)

lemma recordUses_keys:
  assumes "\<And>f a m c r. keys (recordAllowlistUse opts f a m c r) = keys f"
  shows "keys (snd (recordUses opts aid ct rp seen ms f)) = keys f"
  by (induction ms arbitrary: f seen) (simp_all add: Let_def split_beta assms)

lemma localPath_approved:
  assumes "approved params = Some True" and "normalizedDecision params = None"
  shows "filter isAddEntry (fst (localPath opts params cmd)) = []
    \<and> (snd (localPath opts params cmd) = approvalsFile (approvalsOf opts params)
       \<or> snd (localPath opts params cmd) =
           snd (recordUses opts (agentIdOf params) (rc_cmdText cmd)
                  (firstSegmentPath (segments (analysisOf opts params cmd))) []
                  (allowlistMatches (analysisOf opts params cmd))
                  (approvalsFile (approvalsOf opts params))))
    \<and> (\<forall>r \<in> set (replies (fst (localPath opts params cmd))).
          errMessage r \<noteq> Some ''SYSTEM_RUN_DENIED: approval required''
          \<and> errMessage r \<noteq> Some ''SYSTEM_RUN_DENIED: allowlist miss'')
    \<and> (filter isDenied (fst (localPath opts params cmd)) = []
       \<or> filter isDenied (fst (localPath opts params cmd)) =
           [deniedEvent opts params cmd ''security=deny'']
       \<or> filter isDenied (fst (localPath opts params cmd)) =
           [deniedEvent opts params cmd ''permission:screenRecording''])"
proof -
  from assms(1) have a: "approvedByAsk params"
    by (simp add: approvedByAsk_def)
  with assms(2) show ?thesis
    by (simp add: localPath_def Let_def split_beta errMessage_def runAndReply_def)
qed

text \<open>
  Claim C10, as amended. For a request with \<^verbatim>\<open>approved=true\<close> and no decision
  (absent, or neither \<^verbatim>\<open>allow-once\<close> nor \<^verbatim>\<open>allow-always\<close>),
  \<^verbatim>\<open>addAllowlistEntry\<close> is never called, and whatever \<^verbatim>\<open>recordAllowlistUse\<close> leaves
  unchanged in the approvals file (such as the set of its entries) is unchanged by the
  invocation. When the handler decides by itself, the request is treated as approved: the
  reply is neither the denial \<^verbatim>\<open>approval required\<close> nor \<^verbatim>\<open>allowlist miss\<close>, and an
  \<^verbatim>\<open>exec.denied\<close> event, if any, has the reason \<^verbatim>\<open>security=deny\<close> or
  \<^verbatim>\<open>permission:screenRecording\<close>.
\<close>

theorem approved_without_decision_adds_nothing:
  assumes "approved params = Some True" and "normalizedDecision params = None"
    and "\<And>f a m c r. keys (recordAllowlistUse opts f a m c r) = keys f"
  shows "filter isAddEntry (fst (handleSystemRunInvoke opts params)) = []
    \<and> (snd (handleSystemRunInvoke opts params) = None
       \<or> map_option keys (snd (handleSystemRunInvoke opts params)) =
           Some (keys (approvalsFile (approvalsOf opts params))))
    \<and> (\<forall>cmd. resolveSystemRunCommand opts (Some (command params)) (rawCommand params) = Inr cmd
            \<and> rc_argv cmd \<noteq> [] \<and> decidedLocally opts params cmd \<longrightarrow>
          (\<forall>r \<in> set (replies (fst (handleSystemRunInvoke opts params))).
             errMessage r \<noteq> Some ''SYSTEM_RUN_DENIED: approval required''
             \<and> errMessage r \<noteq> Some ''SYSTEM_RUN_DENIED: allowlist miss'')
          \<and> (filter isDenied (fst (handleSystemRunInvoke opts params)) = []
             \<or> filter isDenied (fst (handleSystemRunInvoke opts params)) =
                 [deniedEvent opts params cmd ''security=deny'']
             \<or> filter isDenied (fst (handleSystemRunInvoke opts params)) =
                 [deniedEvent opts params cmd ''permission:screenRecording'']))"
proof (cases "resolveSystemRunCommand opts (Some (command params)) (rawCommand params)")
  case (Inl failure)
  then show ?thesis
    by (simp add: handle_refused)
next
  case (Inr cmd)
  show ?thesis
  proof (cases "rc_argv cmd = []")
    case True
    with Inr show ?thesis
      by (simp add: handle_empty)
  next
    case False
    show ?thesis
    proof (cases "decidedLocally opts params cmd")
      case True
      note h = handle_local [OF Inr False True]
      note l = localPath_approved [OF assms(1,2), of opts cmd]
      from l have k: "keys (snd (localPath opts params cmd)) =
          keys (approvalsFile (approvalsOf opts params))"
        using recordUses_keys [of keys opts, OF assms(3)] by auto
      from h l k Inr show ?thesis
        by simp
    next
      case notLocal: False
      from handle_host [OF Inr False notLocal] obtain t where
        m: "macPath opts params cmd =
              ([RunViaMacAppExecHost (execRequestOf opts params cmd)], Some t)"
        and h: "handleSystemRunInvoke opts params =
              (RunViaMacAppExecHost (execRequestOf opts params cmd) # t,
               Some (approvalsFile (approvalsOf opts params)))"
        by blast
      from m have "filter isAddEntry t = []"
        by (auto simp: macPath_def Let_def split: option.splits ExecHostResponse.splits
            if_splits)
      with h Inr notLocal show ?thesis
        by simp
    qed
  qed
qed

text \<open>
  \<^verbatim>\<open>/bin/echo hi\<close> with \<^verbatim>\<open>approved=true\<close> under \<^verbatim>\<open>ask=always\<close>: it runs, a use
  is recorded, and the entries of the store are the same.
\<close>

theorem approved_without_decision_adds_nothing_witness:
  "approved echoHiApproved = Some True
   \<and> normalizedDecision echoHiApproved = None
   \<and> accepted (echoHost ''allowlist'' ''always'') echoHiApproved
   \<and> filter isAddEntry
       (fst (handleSystemRunInvoke (echoHost ''allowlist'' ''always'') echoHiApproved)) = []
   \<and> snd (handleSystemRunInvoke (echoHost ''allowlist'' ''always'') echoHiApproved) =
       Some [usedEchoEntry]
   \<and> entryKeys [usedEchoEntry] =
       entryKeys (approvalsFile (approvalsOf (echoHost ''allowlist'' ''always'') echoHiApproved))
   \<and> map ok (replies
       (fst (handleSystemRunInvoke (echoHost ''allowlist'' ''always'') echoHiApproved))) = [True]"
proof -
  let ?H = "echoHost ''allowlist'' ''always''"
  have a: "approved echoHiApproved = Some True" "normalizedDecision echoHiApproved = None"
    "accepted ?H echoHiApproved"
    by (simp_all add: handler_defs normalizer_defs host_defs)
  have k: "entryKeys (recordAllowlistUse ?H f a m c r) = entryKeys f" for f a m c r
    by (simp add: echoHost_def sampleHost_def entryKeys_recordAllowlistUse_spec)
  have s: "snd (handleSystemRunInvoke ?H echoHiApproved) = Some [usedEchoEntry]"
    "map ok (replies (fst (handleSystemRunInvoke ?H echoHiApproved))) = [True]"
    by (simp_all add: handler_defs normalizer_defs host_defs)
  from approved_without_decision_adds_nothing [of echoHiApproved entryKeys ?H, OF a(1,2) k] a s
  show ?thesis
    by simp
qed

text \<open>
  Claim C10 as stated fails on macOS: the request sent to the exec host (lines 396--406)
  carries the decision but not \<^verbatim>\<open>approved\<close>, and when the host refuses without a
  reason the handler emits \<^verbatim>\<open>exec.denied\<close> with the reason \<^verbatim>\<open>approval-required\<close>
  (line 431).
\<close>

theorem approved_on_mac_host_counterexample:
  "approved echoHiApproved = Some True
   \<and> approvalDecision echoHiApproved = None
   \<and> handleSystemRunInvoke
       (macHost ''allowlist'' (Some (HostError None ''SYSTEM_RUN_DENIED: approval required'')))
       echoHiApproved =
       ([RunViaMacAppExecHost echoHiHostRequest,
         SendNodeEvent ''exec.denied'' (deniedPayload ''/bin/echo hi'' ''approval-required''),
         SendInvokeResult
           \<lparr>ok = False, payloadJSON = None,
            err = Some \<lparr>code = Some ''UNAVAILABLE'',
                        message = Some ''SYSTEM_RUN_DENIED: approval required''\<rparr>\<rparr>],
        Some [entryFor ''/bin/echo''])"
  by (simp add: handler_defs normalizer_defs host_defs)

end
